theory Spec2Isabelle
  imports Main
begin

section \<open>JavaScript values and errors\<close>

text \<open>
  The fields of the records that reach the Alert tool are untyped JavaScript values. The
  model covers the primitive values \<open>undefined\<close>, \<open>null\<close>, booleans and strings (numbers
  are floating point and left out). A string is a list of code units below 256.
\<close>

datatype jsval = JUndefined | JNull | JBool bool | JStr string

text \<open>Truthiness, as the operators \<open>||\<close> and \<open>!\<close> read it.\<close>

fun truthy :: "jsval \<Rightarrow> bool" where
  "truthy JUndefined = False"
| "truthy JNull = False"
| "truthy (JBool b) = b"
| "truthy (JStr s) = (s \<noteq> [])"

text \<open>\<open>a || b\<close>\<close>

definition js_or :: "jsval \<Rightarrow> jsval \<Rightarrow> jsval" where
  "js_or a b = (if truthy a then a else b)"

text \<open>The string conversion of template literals and of DOM string properties.\<close>

fun ToString :: "jsval \<Rightarrow> string" where
  "ToString JUndefined = ''undefined''"
| "ToString JNull = ''null''"
| "ToString (JBool b) = (if b then ''true'' else ''false'')"
| "ToString (JStr s) = s"

text \<open>\<open>Array.prototype.includes\<close> on an array of strings (SameValueZero).\<close>

definition array_includes :: "string list \<Rightarrow> jsval \<Rightarrow> bool" where
  "array_includes xs v = (case v of JStr s \<Rightarrow> s \<in> set xs | _ \<Rightarrow> False)"

text \<open>What a statement can throw: a \<open>TypeError\<close> of the language, or a DOM exception.\<close>

datatype js_error = TypeError | SyntaxError | InvalidCharacterError

type_synonym 'a outcome = "js_error + 'a"

definition obind :: "'a outcome \<Rightarrow> ('a \<Rightarrow> 'b outcome) \<Rightarrow> 'b outcome" where
  "obind r f = (case r of Inl e \<Rightarrow> Inl e | Inr v \<Rightarrow> f v)"

section \<open>The DOM the tool builds and reads\<close>

text \<open>
  A node is a text node or an element with its tag name, its class list (an ordered set
  of tokens), its \<open>contentEditable\<close> state, its \<open>data-placeholder\<close> attribute, its click
  listener and its children. The only listeners are those \<open>renderSettings\<close> adds: each
  is the closure over one alert type, and the field holds that type.
\<close>

datatype node =
  is_Text: Text string
| Elem (tagName: string) (classList: "string list") (contentEditable: string)
    (placeholder: "string option") (clickListener: "string option") (childNodes: "node list")

text \<open>
  A position is the path of child indices from a root to one of its descendants.
\<close>

type_synonym position = "nat list"

text \<open>
  What the browser does outside the part of the HTML and DOM Standards modelled below is
  a parameter: the fragment parser on markup (context tag, markup), the serialisation of
  an element child, and \<open>querySelectorAll\<close> on a selector that is not a class selector
  of the modelled form (selector text, root): the positions of the selected descendants,
  or the \<open>SyntaxError\<close> of a selector that does not parse. The document is in standards
  mode, where class names match case-sensitively.
\<close>

record browser =
  parseFragment :: "string \<Rightarrow> string \<Rightarrow> node list"
  serializeElement :: "node \<Rightarrow> string"
  querySelectorAll :: "string \<Rightarrow> node \<Rightarrow> position list outcome"

definition createElement :: "string \<Rightarrow> node" where
  "createElement tag = Elem tag [] ''inherit'' None None []"

text \<open>ASCII whitespace: tab, line feed, form feed, carriage return, space.\<close>

definition ascii_whitespace :: "char \<Rightarrow> bool" where
  "ascii_whitespace c = (of_char c \<in> set [9, 10, 12, 13, 32 :: nat])"

text \<open>
  \<open>DOMTokenList\<close>: \<open>add\<close> and \<open>remove\<close> first validate every token (the empty token is
  a \<open>SyntaxError\<close>, a token with whitespace an \<open>InvalidCharacterError\<close>), then update
  the ordered set.
\<close>

fun validate_tokens :: "string list \<Rightarrow> js_error option" where
  "validate_tokens [] = None"
| "validate_tokens (t # ts) =
     (if t = [] then Some SyntaxError
      else if list_ex ascii_whitespace t then Some InvalidCharacterError
      else validate_tokens ts)"

definition tokens_add :: "string list \<Rightarrow> string list \<Rightarrow> string list outcome" where
  "tokens_add tokens cl =
     (case validate_tokens tokens of
        Some e \<Rightarrow> Inl e
      | None \<Rightarrow> Inr (fold (\<lambda>t acc. if t \<in> set acc then acc else acc @ [t]) tokens cl))"

definition tokens_remove :: "string list \<Rightarrow> string list \<Rightarrow> string list outcome" where
  "tokens_remove tokens cl =
     (case validate_tokens tokens of
        Some e \<Rightarrow> Inl e
      | None \<Rightarrow> Inr (filter (\<lambda>c. c \<notin> set tokens) cl))"

text \<open>
  \<open>el.classList.add(...)\<close> and \<open>el.classList.remove(...)\<close>. A text node has no
  \<open>classList\<close>: the property is \<open>undefined\<close> and the call is a \<open>TypeError\<close>.
\<close>

fun classList_add :: "string list \<Rightarrow> node \<Rightarrow> node outcome" where
  "classList_add tokens (Text s) = Inl TypeError"
| "classList_add tokens (Elem tag cl ce ph li cs) =
     obind (tokens_add tokens cl) (\<lambda>cl'. Inr (Elem tag cl' ce ph li cs))"

fun classList_remove :: "string list \<Rightarrow> node \<Rightarrow> node outcome" where
  "classList_remove tokens (Text s) = Inl TypeError"
| "classList_remove tokens (Elem tag cl ce ph li cs) =
     obind (tokens_remove tokens cl) (\<lambda>cl'. Inr (Elem tag cl' ce ph li cs))"

fun has_class :: "string \<Rightarrow> node \<Rightarrow> bool" where
  "has_class c (Text s) = False"
| "has_class c (Elem tag cl ce ph li cs) = (c \<in> set cl)"

fun appendChild :: "node \<Rightarrow> node \<Rightarrow> node" where
  "appendChild (Text s) child = Text s"
| "appendChild (Elem tag cl ce ph li cs) child = Elem tag cl ce ph li (cs @ [child])"

text \<open>The descendants of a node in tree order (the node itself is not one).\<close>

fun descendants :: "node \<Rightarrow> node list" where
  "descendants (Text s) = []"
| "descendants (Elem tag cl ce ph li cs) = concat (map (\<lambda>c. c # descendants c) cs)"

text \<open>
  \<open>root.querySelector('.' + c)\<close> for a class name \<open>c\<close> that is a CSS identifier: the
  first descendant element in tree order that has the class, or \<open>null\<close>. A text node has
  no \<open>querySelector\<close> method.
\<close>

fun querySelector_class :: "string \<Rightarrow> node \<Rightarrow> node option outcome" where
  "querySelector_class c (Text s) = Inl TypeError"
| "querySelector_class c (Elem tag cl ce ph li cs) =
     Inr (find (has_class c) (descendants (Elem tag cl ce ph li cs)))"

text \<open>
  The class selector \<open>'.' + c\<close> is modelled for the names \<open>c\<close> that are CSS identifiers
  of ASCII letters, digits, \<open>_\<close> and \<open>-\<close>: the first character is a letter or \<open>_\<close>, or
  it is \<open>-\<close> and a letter or \<open>_\<close> follows. Such a selector parses and selects the
  elements that have the class \<open>c\<close>. For another name, \<open>'.' + c\<close> may not parse
  (\<open>'.1btn'\<close>) or may select by another rule (\<open>'.ce.btn'\<close>).
\<close>

definition ident_start :: "char \<Rightarrow> bool" where
  "ident_start c =
     ((65 \<le> (of_char c :: nat) \<and> (of_char c :: nat) \<le> 90)
      \<or> (97 \<le> (of_char c :: nat) \<and> (of_char c :: nat) \<le> 122)
      \<or> c = CHR ''_'')"

definition ident_char :: "char \<Rightarrow> bool" where
  "ident_char c =
     (ident_start c \<or> (48 \<le> (of_char c :: nat) \<and> (of_char c :: nat) \<le> 57) \<or> c = CHR ''-'')"

fun css_identifier :: "string \<Rightarrow> bool" where
  "css_identifier [] = False"
| "css_identifier [c] = ident_start c"
| "css_identifier (c # d # s) =
     ((ident_start c \<or> (c = CHR ''-'' \<and> ident_start d)) \<and> list_all ident_char (d # s))"

subsection \<open>innerHTML\<close>

text \<open>
  Serialising a text node escapes \<open>&\<close>, the no-break space, \<open><\<close> and \<open>>\<close>
  (HTML Standard, "escaping a string"), unless the parent is a raw text element.
\<close>

definition escape_char :: "char \<Rightarrow> string" where
  "escape_char c =
     (if c = CHR ''&'' then ''&amp;''
      else if c = CHR 0xA0 then ''&nbsp;''
      else if c = CHR ''<'' then ''&lt;''
      else if c = CHR ''>'' then ''&gt;''
      else [c])"

definition escapeText :: "string \<Rightarrow> string" where
  "escapeText s = concat (map escape_char s)"

definition rawTextTags :: "string list" where
  "rawTextTags =
     [''style'', ''script'', ''xmp'', ''iframe'', ''noembed'', ''noframes'', ''plaintext'',
      ''noscript'']"

fun serializeNode :: "browser \<Rightarrow> string \<Rightarrow> node \<Rightarrow> string" where
  "serializeNode B parentTag (Text s) =
     (if parentTag \<in> set rawTextTags then s else escapeText s)"
| "serializeNode B parentTag (Elem tag cl ce ph li cs) = serializeElement B (Elem tag cl ce ph li cs)"

text \<open>The \<open>innerHTML\<close> getter of an element.\<close>

definition innerHTML :: "browser \<Rightarrow> node \<Rightarrow> string" where
  "innerHTML B el = concat (map (serializeNode B (tagName el)) (childNodes el))"

text \<open>
  The \<open>innerHTML\<close> property as a script reads it: a text node has none.
\<close>

fun innerHTML_prop :: "browser \<Rightarrow> node \<Rightarrow> jsval" where
  "innerHTML_prop B (Text s) = JUndefined"
| "innerHTML_prop B (Elem tag cl ce ph li cs) = JStr (innerHTML B (Elem tag cl ce ph li cs))"

text \<open>
  A string of printable ASCII characters without \<open><\<close> and \<open>&\<close> holds no markup and no
  character reference: parsed in a \<open>div\<close>, it is one text node (none when it is empty).
\<close>

definition markup_free :: "string \<Rightarrow> bool" where
  "markup_free s =
     list_all (\<lambda>c. 32 \<le> (of_char c :: nat) \<and> (of_char c :: nat) \<le> 126
                   \<and> c \<noteq> CHR ''<'' \<and> c \<noteq> CHR ''&'') s"

definition parse_html :: "browser \<Rightarrow> string \<Rightarrow> string \<Rightarrow> node list" where
  "parse_html B tag s =
     (if tag = ''div'' \<and> markup_free s then (if s = [] then [] else [Text s])
      else parseFragment B tag s)"

text \<open>
  The \<open>innerHTML\<close> setter replaces the children by the parsed fragment; its string
  conversion reads \<open>null\<close> as the empty string.
\<close>

fun LegacyNullToEmptyString :: "jsval \<Rightarrow> string" where
  "LegacyNullToEmptyString JNull = []"
| "LegacyNullToEmptyString v = ToString v"

fun set_innerHTML :: "browser \<Rightarrow> jsval \<Rightarrow> node \<Rightarrow> node" where
  "set_innerHTML B v (Text s) = Text s"
| "set_innerHTML B v (Elem tag cl ce ph li cs) =
     Elem tag cl ce ph li (parse_html B tag (LegacyNullToEmptyString v))"

text \<open>
  The \<open>contentEditable\<close> setter with a boolean: the attribute becomes \<open>"true"\<close> or
  \<open>"false"\<close>.
\<close>

fun set_contentEditable :: "bool \<Rightarrow> node \<Rightarrow> node" where
  "set_contentEditable b (Text s) = Text s"
| "set_contentEditable b (Elem tag cl ce ph li cs) = Elem tag cl (ToString (JBool b)) ph li cs"

fun set_placeholder :: "jsval \<Rightarrow> node \<Rightarrow> node" where
  "set_placeholder v (Text s) = Text s"
| "set_placeholder v (Elem tag cl ce ph li cs) = Elem tag cl ce (Some (ToString v)) li cs"

text \<open>An element with an explicit \<open>contentEditable\<close> state is editable when it is \<open>"true"\<close>.\<close>

fun isContentEditable :: "node \<Rightarrow> bool" where
  "isContentEditable (Text s) = False"
| "isContentEditable (Elem tag cl ce ph li cs) = (ce = ''true'')"

section \<open>The Alert tool\<close>

record AlertData =
  type :: jsval
  message :: jsval

record AlertConfig =
  config_defaultType :: jsval
  config_messagePlaceholder :: jsval

record api_styles =
  settingsButton :: string
  settingsButtonActive :: string

record editor_api =
  styles :: api_styles

text \<open>
  The data objects live in a store: an instance holds a reference to its data object,
  \<open>_changeAlertType\<close> updates that object in place, \<open>onPaste\<close> and \<open>save\<close> make new ones.
  A reference is an index into the store; a new object is appended.
\<close>

type_synonym ref = nat

type_synonym store = "AlertData list"

record alert =
  api :: editor_api
  defaultType :: jsval
  messagePlaceholder :: jsval
  data :: ref
  container :: "node option"
  readOnly :: jsval

definition DEFAULT_TYPE :: string where
  "DEFAULT_TYPE = ''info''"

definition DEFAULT_MESSAGE_PLACEHOLDER :: string where
  "DEFAULT_MESSAGE_PLACEHOLDER = ''Type here...''"

definition ALERT_TYPES :: "string list" where
  "ALERT_TYPES = [''info'', ''hinweis'', ''warnung'']"

subsection \<open>CSS\<close>

definition CSS_settingsButton :: "alert \<Rightarrow> string" where
  "CSS_settingsButton a = settingsButton (styles (api a))"

definition CSS_settingsButtonActive :: "alert \<Rightarrow> string" where
  "CSS_settingsButtonActive a = settingsButtonActive (styles (api a))"

definition CSS_wrapper :: string where
  "CSS_wrapper = ''meldung''"

definition CSS_wrapperForType :: "jsval \<Rightarrow> string" where
  "CSS_wrapperForType t = ''meldung_'' @ ToString t"

definition CSS_message :: string where
  "CSS_message = ''cdx-alert__message''"

subsection \<open>constructor\<close>

definition constructor ::
  "AlertData \<Rightarrow> AlertConfig \<Rightarrow> editor_api \<Rightarrow> jsval \<Rightarrow> store \<Rightarrow> alert \<times> store" where
  "constructor d config ap ro h =
     (let dt = js_or (config_defaultType config) (JStr DEFAULT_TYPE);
          mp = js_or (config_messagePlaceholder config) (JStr DEFAULT_MESSAGE_PLACEHOLDER);
          obj = \<lparr> type = (if array_includes ALERT_TYPES (type d) then type d else dt),
                  message = js_or (message d) (JStr []) \<rparr>
      in (\<lparr> api = ap, defaultType = dt, messagePlaceholder = mp, data = length h,
             container = None, readOnly = ro \<rparr>,
          h @ [obj]))"

subsection \<open>_make\<close>

datatype classNames = NoClassNames | ClassArray "string list" | ClassName string

datatype attribute = ContentEditable bool | InnerHTML jsval

fun set_attribute :: "browser \<Rightarrow> attribute \<Rightarrow> node \<Rightarrow> node" where
  "set_attribute B (ContentEditable b) el = set_contentEditable b el"
| "set_attribute B (InnerHTML v) el = set_innerHTML B v el"

definition make :: "browser \<Rightarrow> string \<Rightarrow> classNames \<Rightarrow> attribute list \<Rightarrow> node outcome" where
  "make B tag cns attributes =
     obind
       (case cns of
          ClassArray cs \<Rightarrow> classList_add cs (createElement tag)
        | ClassName c \<Rightarrow> (if c \<noteq> [] then classList_add [c] (createElement tag)
                          else Inr (createElement tag))
        | NoClassNames \<Rightarrow> Inr (createElement tag))
       (\<lambda>el. Inr (fold (set_attribute B) attributes el))"

subsection \<open>render\<close>

definition render :: "browser \<Rightarrow> alert \<Rightarrow> store \<Rightarrow> node outcome \<times> alert" where
  "render B a h =
     (case make B ''div'' (ClassArray [CSS_wrapper, CSS_wrapperForType (type (h ! data a))]) [] of
        Inl e \<Rightarrow> (Inl e, a)
      | Inr cont \<Rightarrow>
          (case make B ''div'' (ClassArray [CSS_message])
                  [ContentEditable (\<not> truthy (readOnly a)), InnerHTML (message (h ! data a))] of
             Inl e \<Rightarrow> (Inl e, a\<lparr>container := Some cont\<rparr>)
           | Inr messageEl \<Rightarrow>
               (let cont' = appendChild cont (set_placeholder (messagePlaceholder a) messageEl)
                in (Inr cont', a\<lparr>container := Some cont'\<rparr>))))"

subsection \<open>_changeAlertType\<close>

fun restyle :: "string \<Rightarrow> string list \<Rightarrow> node \<Rightarrow> node outcome" where
  "restyle newType [] c = Inr c"
| "restyle newType (t # ts) c =
     obind (classList_remove [CSS_wrapperForType (JStr t)] c)
       (\<lambda>c1. obind (if newType = t then classList_add [CSS_wrapperForType (JStr t)] c1 else Inr c1)
                (restyle newType ts))"

definition changeAlertType :: "string \<Rightarrow> alert \<Rightarrow> store \<Rightarrow> unit outcome \<times> alert \<times> store" where
  "changeAlertType newType a h =
     (let h1 = h[data a := (h ! data a)\<lparr>type := JStr newType\<rparr>] in
      case container a of
        None \<Rightarrow> (Inl TypeError, a, h1)
      | Some c \<Rightarrow>
          (case restyle newType ALERT_TYPES c of
             Inl e \<Rightarrow> (Inl e, a, h1)
           | Inr c' \<Rightarrow> (Inr (), a\<lparr>container := Some c'\<rparr>, h1)))"

subsection \<open>renderSettings\<close>

fun addEventListener_click :: "string \<Rightarrow> node \<Rightarrow> node" where
  "addEventListener_click t (Text s) = Text s"
| "addEventListener_click t (Elem tag cl ce ph li cs) = Elem tag cl ce ph (Some t) cs"

text \<open>The body of the \<open>forEach\<close> over the supported types, one button a round.\<close>

fun settingsButtons :: "browser \<Rightarrow> alert \<Rightarrow> store \<Rightarrow> string list \<Rightarrow> node \<Rightarrow> node outcome" where
  "settingsButtons B a h [] settingsContainer = Inr settingsContainer"
| "settingsButtons B a h (t # ts) settingsContainer =
     obind (make B ''div''
              (ClassArray [CSS_settingsButton a, CSS_wrapper, CSS_wrapperForType (JStr t)])
              [InnerHTML (JStr ''A'')])
       (\<lambda>b. obind (if type (h ! data a) = JStr t
                     then classList_add [CSS_settingsButtonActive a] b else Inr b)
          (\<lambda>b'. settingsButtons B a h ts
                   (appendChild settingsContainer (addEventListener_click t b'))))"

definition renderSettings :: "browser \<Rightarrow> alert \<Rightarrow> store \<Rightarrow> node outcome" where
  "renderSettings B a h =
     obind (make B ''div'' NoClassNames []) (settingsButtons B a h ALERT_TYPES)"

subsection \<open>The click listener of a settings button\<close>

fun drop_class :: "string \<Rightarrow> node \<Rightarrow> node" where
  "drop_class c (Text s) = Text s"
| "drop_class c (Elem tag cl ce ph li cs) = Elem tag (filter (\<lambda>x. x \<noteq> c) cl) ce ph li cs"

text \<open>
  \<open>root.querySelectorAll('.' + c).forEach((button) => button.classList.remove(act))\<close>.
  For a class name \<open>c\<close> that is a CSS identifier, the token \<open>act\<close> leaves every
  descendant that has the class \<open>c\<close>. For another name the browser selects: it throws a
  \<open>SyntaxError\<close> or gives the positions of the selected descendants, and \<open>act\<close> leaves
  the elements at these positions. The first \<open>remove\<close> throws when \<open>act\<close> is no valid
  token.
\<close>

fun update_at :: "position \<Rightarrow> (node \<Rightarrow> node) \<Rightarrow> node \<Rightarrow> node" where
  "update_at [] f n = f n"
| "update_at (i # p) f (Text s) = Text s"
| "update_at (i # p) f (Elem tag cl ce ph li cs) =
     Elem tag cl ce ph li (if i < length cs then cs[i := update_at p f (cs ! i)] else cs)"

fun remove_from_matching :: "string \<Rightarrow> string \<Rightarrow> node \<Rightarrow> node" where
  "remove_from_matching c act (Text s) = Text s"
| "remove_from_matching c act (Elem tag cl ce ph li cs) =
     Elem tag cl ce ph li
       (map (\<lambda>ch. if has_class c ch then drop_class act (remove_from_matching c act ch)
                  else remove_from_matching c act ch) cs)"

fun unhighlight :: "browser \<Rightarrow> string \<Rightarrow> string \<Rightarrow> node \<Rightarrow> node outcome" where
  "unhighlight B c act (Text s) = Inl TypeError"
| "unhighlight B c act (Elem tag cl ce ph li cs) =
     (if css_identifier c then
        (if list_ex (has_class c) (descendants (Elem tag cl ce ph li cs))
         then (case validate_tokens [act] of
                 Some e \<Rightarrow> Inl e
               | None \<Rightarrow> Inr (remove_from_matching c act (Elem tag cl ce ph li cs)))
         else Inr (Elem tag cl ce ph li cs))
      else
        (case querySelectorAll B (CHR ''.'' # c) (Elem tag cl ce ph li cs) of
           Inl e \<Rightarrow> Inl e
         | Inr [] \<Rightarrow> Inr (Elem tag cl ce ph li cs)
         | Inr (p # ps) \<Rightarrow>
             (case validate_tokens [act] of
                Some e \<Rightarrow> Inl e
              | None \<Rightarrow>
                  Inr (fold (\<lambda>q. update_at q (drop_class act)) (p # ps)
                         (Elem tag cl ce ph li cs)))))"

text \<open>
  \<open>settingsButton.classList.add(act)\<close> on the clicked button, child \<open>i\<close> of the container.
  A button that is no child of the container any more changes nothing in it.
\<close>

fun highlight :: "nat \<Rightarrow> string \<Rightarrow> node \<Rightarrow> node outcome" where
  "highlight i act (Text s) = Inl TypeError"
| "highlight i act (Elem tag cl ce ph li cs) =
     (if i < length cs
      then obind (classList_add [act] (cs ! i)) (\<lambda>b. Inr (Elem tag cl ce ph li (cs[i := b])))
      else (case validate_tokens [act] of
              Some e \<Rightarrow> Inl e
            | None \<Rightarrow> Inr (Elem tag cl ce ph li cs)))"

text \<open>
  The listener of the button for \<open>t\<close>, child \<open>i\<close> of the settings container. The state is
  the settings container, the instance and the store.
\<close>

definition settingsButton_onclick ::
  "browser \<Rightarrow> string \<Rightarrow> nat \<Rightarrow> node \<Rightarrow> alert \<Rightarrow> store
     \<Rightarrow> unit outcome \<times> node \<times> alert \<times> store" where
  "settingsButton_onclick B t i settingsContainer a h =
     (case changeAlertType t a h of
        (Inl e, a', h') \<Rightarrow> (Inl e, settingsContainer, a', h')
      | (Inr u, a', h') \<Rightarrow>
          (case unhighlight B (CSS_settingsButton a') (CSS_settingsButtonActive a')
                  settingsContainer of
             Inl e \<Rightarrow> (Inl e, settingsContainer, a', h')
           | Inr sc1 \<Rightarrow>
               (case highlight i (CSS_settingsButtonActive a') sc1 of
                  Inl e \<Rightarrow> (Inl e, sc1, a', h')
                | Inr sc2 \<Rightarrow> (Inr (), sc2, a', h'))))"

text \<open>
  A click on child \<open>i\<close> of the settings container runs the listener of that child, if it
  has one.
\<close>

fun click ::
  "browser \<Rightarrow> nat \<Rightarrow> node \<Rightarrow> alert \<Rightarrow> store \<Rightarrow> unit outcome \<times> node \<times> alert \<times> store" where
  "click B i (Text s) a h = (Inr (), Text s, a, h)"
| "click B i (Elem tag cl ce ph li cs) a h =
     (if i < length cs then
        (case cs ! i of
           Elem tag' cl' ce' ph' (Some t) cs' \<Rightarrow>
             settingsButton_onclick B t i (Elem tag cl ce ph li cs) a h
         | _ \<Rightarrow> (Inr (), Elem tag cl ce ph li cs, a, h))
      else (Inr (), Elem tag cl ce ph li cs, a, h))"

subsection \<open>save\<close>

definition save :: "browser \<Rightarrow> node \<Rightarrow> alert \<Rightarrow> store \<Rightarrow> ref outcome \<times> alert \<times> store" where
  "save B alertElement a h =
     (case querySelector_class CSS_message alertElement of
        Inl e \<Rightarrow> (Inl e, a, h)
      | Inr None \<Rightarrow> (Inl TypeError, a, h)
      | Inr (Some messageEl) \<Rightarrow>
          (Inr (length h), a, h @ [(h ! data a)\<lparr>message := JStr (innerHTML B messageEl)\<rparr>]))"

subsection \<open>onPaste\<close>

datatype paste_event = PasteEvent (detail_data: node)

definition onPaste :: "browser \<Rightarrow> paste_event \<Rightarrow> alert \<Rightarrow> store \<Rightarrow> alert \<times> store" where
  "onPaste B event a h =
     (a\<lparr>data := length h\<rparr>,
      h @ [\<lparr> type = defaultType a,
             message = js_or (innerHTML_prop B (detail_data event)) (JStr []) \<rparr>])"

subsection \<open>conversionConfig\<close>

definition conversionConfig_export :: "AlertData \<Rightarrow> jsval" where
  "conversionConfig_export d = message d"

definition conversionConfig_import :: "jsval \<Rightarrow> AlertData" where
  "conversionConfig_import string = \<lparr> type = JStr DEFAULT_TYPE, message = string \<rparr>"

subsection \<open>render, then save the rendered element\<close>

text \<open>
  The host renders a block and later passes the rendered element to \<open>save\<close>; the result is
  the record \<open>save\<close> returns.
\<close>

definition render_save :: "browser \<Rightarrow> alert \<Rightarrow> store \<Rightarrow> AlertData outcome" where
  "render_save B a h =
     (case render B a h of
        (Inl e, a1) \<Rightarrow> Inl e
      | (Inr el, a1) \<Rightarrow>
          (case save B el a1 h of
             (Inl e, a2, h2) \<Rightarrow> Inl e
           | (Inr r, a2, h2) \<Rightarrow> Inr (h2 ! r)))"

subsection \<open>The calls of the host\<close>

text \<open>
  The host calls the constructor with one argument object and \<open>onPaste\<close> with an event.
  The constructor reads \<open>config.defaultType\<close> and then \<open>data.type\<close>: a \<open>TypeError\<close> when
  \<open>config\<close> or \<open>data\<close> is \<open>undefined\<close> or \<open>null\<close>. \<open>onPaste\<close> takes \<open>data\<close> out of
  \<open>event.detail\<close> and reads \<open>data.innerHTML\<close>: a \<open>TypeError\<close> when the event has no detail
  or the detail no data (the event of a pasted file); a pasted string has no \<open>innerHTML\<close>,
  as a text node has none.
\<close>

definition call_constructor ::
  "AlertData option \<Rightarrow> AlertConfig option \<Rightarrow> editor_api \<Rightarrow> jsval \<Rightarrow> store
     \<Rightarrow> (alert \<times> store) outcome" where
  "call_constructor d config ap ro h =
     (case config of
        None \<Rightarrow> Inl TypeError
      | Some c \<Rightarrow>
          (case d of
             None \<Rightarrow> Inl TypeError
           | Some d' \<Rightarrow> Inr (constructor d' c ap ro h)))"

datatype paste_argument = NoDetail | NoData | PastedString string | PastedNode node

definition call_onPaste ::
  "browser \<Rightarrow> paste_argument \<Rightarrow> alert \<Rightarrow> store \<Rightarrow> (alert \<times> store) outcome" where
  "call_onPaste B arg a h =
     (case arg of
        NoDetail \<Rightarrow> Inl TypeError
      | NoData \<Rightarrow> Inl TypeError
      | PastedString s \<Rightarrow>
          Inr (a\<lparr>data := length h\<rparr>,
               h @ [\<lparr> type = defaultType a, message = js_or JUndefined (JStr []) \<rparr>])
      | PastedNode n \<Rightarrow> Inr (onPaste B (PasteEvent n) a h))"

subsection \<open>The states in which the operations return\<close>

text \<open>
  An instance with its store is operable when its data reference points into the store,
  neither its default type nor its current type holds whitespace as a string, the host's
  name for a settings button is a CSS identifier and its name for the active button a
  valid class token, and its container, once rendered, is an element. A settings
  container is an element whose children are elements that carry the click listeners for
  the supported types, in the order of \<open>ALERT_TYPES\<close>.
\<close>

definition operable :: "alert \<Rightarrow> store \<Rightarrow> bool" where
  "operable a h =
     (data a < length h
      \<and> \<not> list_ex ascii_whitespace (ToString (defaultType a))
      \<and> \<not> list_ex ascii_whitespace (ToString (type (h ! data a)))
      \<and> css_identifier (CSS_settingsButton a)
      \<and> validate_tokens [CSS_settingsButtonActive a] = None
      \<and> (case container a of None \<Rightarrow> True | Some c \<Rightarrow> \<not> is_Text c))"

definition settings_container :: "node \<Rightarrow> bool" where
  "settings_container sc =
     (case sc of
        Text s \<Rightarrow> False
      | Elem tag cl ce ph li bs \<Rightarrow>
          list_all2 (\<lambda>b t. \<not> is_Text b \<and> clickListener b = Some t) bs ALERT_TYPES)"

subsection \<open>Example inputs\<close>

text \<open>
  A browser whose parameters are trivial, the style names Editor.js hands to its tools,
  and the empty configuration.
\<close>

definition example_browser :: browser where
  "example_browser =
     \<lparr> parseFragment = (\<lambda>tag s. []), serializeElement = (\<lambda>n. []),
       querySelectorAll = (\<lambda>selector root. Inr []) \<rparr>"

definition example_api :: editor_api where
  "example_api =
     \<lparr> styles = \<lparr> settingsButton = ''cdx-settings-button'',
                  settingsButtonActive = ''cdx-settings-button--active'' \<rparr> \<rparr>"

definition empty_config :: AlertConfig where
  "empty_config = \<lparr> config_defaultType = JUndefined, config_messagePlaceholder = JUndefined \<rparr>"

text \<open>
  The block rendered from the record \<open>{type: 'info', message: 'Hello'}\<close> under the empty
  configuration, its instance after \<open>render\<close>, and the store holding its data object.
\<close>

definition example_element :: node where
  "example_element =
     Elem ''div'' [''meldung'', ''meldung_info''] ''inherit'' None None
       [Elem ''div'' [''cdx-alert__message''] ''true'' (Some ''Type here...'') None
          [Text ''Hello'']]"

definition example_alert :: alert where
  "example_alert =
     \<lparr> api = example_api, defaultType = JStr ''info'',
       messagePlaceholder = JStr ''Type here...'', data = 0,
       container = Some example_element, readOnly = JBool False \<rparr>"

definition example_store :: store where
  "example_store = [\<lparr> type = JStr ''info'', message = JStr ''Hello'' \<rparr>]"

text \<open>The settings of that block, as \<open>renderSettings\<close> builds them.\<close>

definition example_settings :: node where
  "example_settings =
     Elem ''div'' [] ''inherit'' None None
       [Elem ''div'' [''cdx-settings-button'', ''meldung'', ''meldung_info'',
                      ''cdx-settings-button--active'']
          ''inherit'' None (Some ''info'') [Text ''A''],
        Elem ''div'' [''cdx-settings-button'', ''meldung'', ''meldung_hinweis'']
          ''inherit'' None (Some ''hinweis'') [Text ''A''],
        Elem ''div'' [''cdx-settings-button'', ''meldung'', ''meldung_warnung'']
          ''inherit'' None (Some ''warnung'') [Text ''A'']]"

text \<open>The same block rendered in read-only mode, and its instance after \<open>render\<close>.\<close>

definition example_readonly_element :: node where
  "example_readonly_element =
     Elem ''div'' [''meldung'', ''meldung_info''] ''inherit'' None None
       [Elem ''div'' [''cdx-alert__message''] ''false'' (Some ''Type here...'') None
          [Text ''Hello'']]"

definition example_readonly_alert :: alert where
  "example_readonly_alert =
     \<lparr> api = example_api, defaultType = JStr ''info'',
       messagePlaceholder = JStr ''Type here...'', data = 0,
       container = Some example_readonly_element, readOnly = JBool True \<rparr>"

section \<open>Basic facts\<close>

lemma array_includes_iff: "array_includes xs v \<longleftrightarrow> v \<in> JStr ` set xs"
  by (cases v) (auto simp: array_includes_def)

lemma constructor_fields:
  "constructor d config ap ro h =
     (\<lparr> api = ap,
        defaultType = (if truthy (config_defaultType config) then config_defaultType config
                       else JStr ''info''),
        messagePlaceholder = (if truthy (config_messagePlaceholder config)
                              then config_messagePlaceholder config else JStr ''Type here...''),
        data = length h, container = None, readOnly = ro \<rparr>,
      h @ [\<lparr> type = (if type d \<in> JStr ` set ALERT_TYPES then type d
                     else if truthy (config_defaultType config) then config_defaultType config
                     else JStr ''info''),
             message = (if truthy (message d) then message d else JStr []) \<rparr>])"
  by (simp add: constructor_def Let_def array_includes_iff js_or_def DEFAULT_TYPE_def
      DEFAULT_MESSAGE_PLACEHOLDER_def)

lemma validate_container:
  "validate_tokens [CSS_wrapper, CSS_wrapperForType v] =
     (if list_ex ascii_whitespace (ToString v) then Some InvalidCharacterError else None)"
  by (simp add: CSS_wrapper_def CSS_wrapperForType_def ascii_whitespace_def)

text \<open>The message class is a CSS identifier: \<open>save\<close> builds a class selector of the modelled form.\<close>

lemma CSS_message_identifier: "css_identifier CSS_message"
  by code_simp

lemma validate_message: "validate_tokens [CSS_message] = None"
  by (simp add: CSS_message_def ascii_whitespace_def)

lemma wrapper_neq_wrapperForType:
  "CSS_wrapper \<noteq> CSS_wrapperForType v" "CSS_wrapperForType v \<noteq> CSS_wrapper"
  by (simp_all add: CSS_wrapper_def CSS_wrapperForType_def)

lemma make_container:
  "make B ''div'' (ClassArray [CSS_wrapper, CSS_wrapperForType v]) [] =
     (if list_ex ascii_whitespace (ToString v) then Inl InvalidCharacterError
      else Inr (Elem ''div'' [CSS_wrapper, CSS_wrapperForType v] ''inherit'' None None []))"
  by (simp add: make_def createElement_def obind_def tokens_add_def validate_container
      wrapper_neq_wrapperForType del: validate_tokens.simps)

lemma make_message:
  "make B ''div'' (ClassArray [CSS_message]) [ContentEditable b, InnerHTML v] =
     Inr (Elem ''div'' [CSS_message] (if b then ''true'' else ''false'') None None
            (parse_html B ''div'' (LegacyNullToEmptyString v)))"
  by (simp add: make_def createElement_def obind_def tokens_add_def validate_message
      del: validate_tokens.simps)

text \<open>
  \<open>render\<close> throws exactly when the class name of the type holds whitespace; otherwise it
  returns the container with the message element as its only child.
\<close>

lemma render_throws:
  "list_ex ascii_whitespace (ToString (type (h ! data a))) \<Longrightarrow>
   render B a h = (Inl InvalidCharacterError, a)"
  by (simp add: render_def make_container)

lemma render_returns:
  "\<not> list_ex ascii_whitespace (ToString (type (h ! data a))) \<Longrightarrow>
   render B a h =
     (Inr (Elem ''div'' [CSS_wrapper, CSS_wrapperForType (type (h ! data a))] ''inherit''
             None None
             [Elem ''div'' [CSS_message] (if truthy (readOnly a) then ''false'' else ''true'')
                (Some (ToString (messagePlaceholder a))) None
                (parse_html B ''div'' (LegacyNullToEmptyString (message (h ! data a))))]),
      a\<lparr>container :=
          Some (Elem ''div'' [CSS_wrapper, CSS_wrapperForType (type (h ! data a))] ''inherit''
                  None None
                  [Elem ''div'' [CSS_message]
                     (if truthy (readOnly a) then ''false'' else ''true'')
                     (Some (ToString (messagePlaceholder a))) None
                     (parse_html B ''div'' (LegacyNullToEmptyString (message (h ! data a))))])\<rparr>)"
  by (simp add: render_def make_container make_message Let_def)

text \<open>\<open>save\<close> returns a new record when the element has a message element, and throws otherwise.\<close>

lemma save_found:
  "find (has_class CSS_message) (descendants el) = Some m \<Longrightarrow>
   save B el a h = (Inr (length h), a, h @ [(h ! data a)\<lparr>message := JStr (innerHTML B m)\<rparr>])"
  by (cases el) (simp_all add: save_def)

lemma save_not_found:
  "find (has_class CSS_message) (descendants el) = None \<Longrightarrow>
   save B el a h = (Inl TypeError, a, h)"
  by (cases el) (simp_all add: save_def)

lemma example_rendered:
  "render example_browser
       (fst (constructor \<lparr> type = JStr ''info'', message = JStr ''Hello'' \<rparr> empty_config
               example_api (JBool False) []))
       (snd (constructor \<lparr> type = JStr ''info'', message = JStr ''Hello'' \<rparr> empty_config
               example_api (JBool False) []))
   = (Inr example_element, example_alert)"
  by (simp add: constructor_fields empty_config_def render_returns ascii_whitespace_def
      example_element_def example_alert_def CSS_wrapper_def CSS_wrapperForType_def
      CSS_message_def parse_html_def markup_free_def)

lemma example_saved:
  "save example_browser example_element example_alert example_store
     = (Inr 1, example_alert,
        [\<lparr> type = JStr ''info'', message = JStr ''Hello'' \<rparr>,
         \<lparr> type = JStr ''info'', message = JStr ''Hello'' \<rparr>])"
  by (simp add: example_element_def example_alert_def example_store_def CSS_message_def
      save_def innerHTML_def rawTextTags_def escapeText_def escape_char_def)

lemma ALERT_TYPES_no_whitespace: "t \<in> set ALERT_TYPES \<Longrightarrow> \<not> list_ex ascii_whitespace t"
  by (auto simp: ALERT_TYPES_def ascii_whitespace_def)

lemma wrapperForType_inj [simp]:
  "CSS_wrapperForType (JStr s) = CSS_wrapperForType (JStr t) \<longleftrightarrow> s = t"
  by (simp add: CSS_wrapperForType_def)

lemma validate_wrapperForType:
  "\<not> list_ex ascii_whitespace t \<Longrightarrow> validate_tokens [CSS_wrapperForType (JStr t)] = None"
  by (simp add: CSS_wrapperForType_def ascii_whitespace_def)

lemma classList_remove_one:
  "validate_tokens [c] = None \<Longrightarrow>
   classList_remove [c] (Elem tag cl ce ph li cs) = Inr (Elem tag (filter (\<lambda>x. x \<noteq> c) cl) ce ph li cs)"
  by (simp add: tokens_remove_def obind_def del: validate_tokens.simps)

lemma classList_add_one:
  "validate_tokens [c] = None \<Longrightarrow>
   classList_add [c] (Elem tag cl ce ph li cs) =
     Inr (Elem tag (if c \<in> set cl then cl else cl @ [c]) ce ph li cs)"
  by (simp add: tokens_add_def obind_def del: validate_tokens.simps)

lemma restyle_returns:
  "\<forall>u\<in>set ts. \<not> list_ex ascii_whitespace u \<Longrightarrow>
   \<exists>cl'. restyle t ts (Elem tag cl ce ph li cs) = Inr (Elem tag cl' ce ph li cs)
        \<and> set cl' = (set cl - (\<lambda>u. CSS_wrapperForType (JStr u)) ` set ts)
                      \<union> (if t \<in> set ts then {CSS_wrapperForType (JStr t)} else {})"
proof (induction ts arbitrary: cl)
  case Nil
  then show ?case by simp
next
  case (Cons u us)
  let ?w = "\<lambda>u. CSS_wrapperForType (JStr u)"
  from Cons.prems have "\<not> list_ex ascii_whitespace u" by simp
  then have v: "validate_tokens [?w u] = None"
    by (rule validate_wrapperForType)
  define cl1 where "cl1 = (if t = u then filter (\<lambda>x. x \<noteq> ?w u) cl @ [?w u]
                           else filter (\<lambda>x. x \<noteq> ?w u) cl)"
  have step: "restyle t (u # us) (Elem tag cl ce ph li cs) = restyle t us (Elem tag cl1 ce ph li cs)"
    by (simp add: classList_remove_one [OF v] classList_add_one [OF v] obind_def cl1_def
        del: classList_remove.simps classList_add.simps)
  from Cons.prems have "\<forall>u\<in>set us. \<not> list_ex ascii_whitespace u" by simp
  from Cons.IH [OF this, of cl1] obtain cl' where
    r: "restyle t us (Elem tag cl1 ce ph li cs) = Inr (Elem tag cl' ce ph li cs)"
    and s: "set cl' = (set cl1 - ?w ` set us) \<union> (if t \<in> set us then {?w t} else {})"
    by blast
  have "set cl' = (set cl - ?w ` set (u # us)) \<union> (if t \<in> set (u # us) then {?w t} else {})"
    unfolding s cl1_def by auto
  with step r show ?case by simp
qed


lemma changeAlertType_returns:
  assumes "container a = Some (Elem tag cl ce ph li cs)"
  shows "\<exists>cl'. changeAlertType t a h =
             (Inr (), a\<lparr>container := Some (Elem tag cl' ce ph li cs)\<rparr>,
              h[data a := (h ! data a)\<lparr>type := JStr t\<rparr>])
          \<and> set cl' = (set cl - (\<lambda>u. CSS_wrapperForType (JStr u)) ` set ALERT_TYPES)
                        \<union> (if t \<in> set ALERT_TYPES then {CSS_wrapperForType (JStr t)} else {})"
proof -
  have "\<forall>u\<in>set ALERT_TYPES. \<not> list_ex ascii_whitespace u"
    by (simp add: ALERT_TYPES_no_whitespace)
  from restyle_returns [OF this, of t tag cl ce ph li cs] obtain cl' where
    "restyle t ALERT_TYPES (Elem tag cl ce ph li cs) = Inr (Elem tag cl' ce ph li cs)"
    "set cl' = (set cl - (\<lambda>u. CSS_wrapperForType (JStr u)) ` set ALERT_TYPES)
                  \<union> (if t \<in> set ALERT_TYPES then {CSS_wrapperForType (JStr t)} else {})"
    by blast
  with assms show ?thesis
    by (intro exI [of _ cl']) (simp add: changeAlertType_def Let_def)
qed

lemma fold_add_set:
  "set (fold (\<lambda>t acc. if t \<in> set acc then acc else acc @ [t]) ts cl) = set cl \<union> set ts"
  by (induction ts arbitrary: cl) auto

lemma validate_append:
  "validate_tokens (xs @ ys) =
     (case validate_tokens xs of Some e \<Rightarrow> Some e | None \<Rightarrow> validate_tokens ys)"
  by (induction xs) auto

lemma wrapper_tokens:
  "list_ex ascii_whitespace (CSS_wrapperForType v) = list_ex ascii_whitespace (ToString v)"
  "CSS_wrapperForType v \<noteq> []" "\<not> list_ex ascii_whitespace CSS_wrapper" "CSS_wrapper \<noteq> []"
  by (simp_all add: CSS_wrapperForType_def CSS_wrapper_def ascii_whitespace_def)

lemma validate_button:
  assumes "validate_tokens [sb] = None" and "\<not> list_ex ascii_whitespace t"
  shows "validate_tokens [sb, CSS_wrapper, CSS_wrapperForType (JStr t)] = None"
proof -
  from assms(1) have "sb \<noteq> []" "\<not> list_ex ascii_whitespace sb"
    by (simp_all split: if_splits)
  with assms(2) show ?thesis
    by (simp add: wrapper_tokens)
qed

lemma make_button:
  assumes "validate_tokens [sb] = None" and "\<not> list_ex ascii_whitespace t"
  shows "\<exists>cl. make B ''div'' (ClassArray [sb, CSS_wrapper, CSS_wrapperForType (JStr t)])
                 [InnerHTML (JStr ''A'')]
               = Inr (Elem ''div'' cl ''inherit'' None None [Text ''A''])
             \<and> set cl = {sb, CSS_wrapper, CSS_wrapperForType (JStr t)}"
proof -
  have p: "parse_html B ''div'' ''A'' = [Text ''A'']"
    by (simp add: parse_html_def markup_free_def)
  show ?thesis
    unfolding make_def createElement_def
    by (auto simp: obind_def tokens_add_def validate_button [OF assms] p
        simp del: validate_tokens.simps)
qed


lemma settingsButtons_returns:
  assumes sb: "validate_tokens [CSS_settingsButton a] = None"
    and act: "validate_tokens [CSS_settingsButtonActive a] = None"
    and ws: "\<forall>t\<in>set ts. \<not> list_ex ascii_whitespace t"
  shows "\<exists>bs. settingsButtons B a h ts (Elem tag cl ce ph li cs) = Inr (Elem tag cl ce ph li (cs @ bs))
          \<and> list_all2 (\<lambda>b t. \<not> is_Text b
                        \<and> has_class (CSS_settingsButton a) b
                        \<and> has_class (CSS_wrapperForType (JStr t)) b
                        \<and> clickListener b = Some t
                        \<and> (has_class (CSS_settingsButtonActive a) b \<longleftrightarrow>
                             type (h ! data a) = JStr t
                             \<or> CSS_settingsButtonActive a
                                 \<in> {CSS_settingsButton a, CSS_wrapper, CSS_wrapperForType (JStr t)}))
               bs ts"
  using ws
proof (induction ts arbitrary: cs)
  case Nil
  then show ?case by simp
next
  case (Cons t ts)
  let ?P = "\<lambda>b t. \<not> is_Text b
                        \<and> has_class (CSS_settingsButton a) b
                        \<and> has_class (CSS_wrapperForType (JStr t)) b
                        \<and> clickListener b = Some t
                        \<and> (has_class (CSS_settingsButtonActive a) b \<longleftrightarrow>
                             type (h ! data a) = JStr t
                             \<or> CSS_settingsButtonActive a
                                 \<in> {CSS_settingsButton a, CSS_wrapper, CSS_wrapperForType (JStr t)})"
  from Cons.prems have t: "\<not> list_ex ascii_whitespace t" by simp
  from make_button [OF sb t, of B] obtain cl0 where
    m: "make B ''div'' (ClassArray [CSS_settingsButton a, CSS_wrapper, CSS_wrapperForType (JStr t)])
          [InnerHTML (JStr ''A'')] = Inr (Elem ''div'' cl0 ''inherit'' None None [Text ''A''])"
    and cl0: "set cl0 = {CSS_settingsButton a, CSS_wrapper, CSS_wrapperForType (JStr t)}"
    by blast
  define cl1 where "cl1 =
    (if type (h ! data a) = JStr t \<and> CSS_settingsButtonActive a \<notin> set cl0
     then cl0 @ [CSS_settingsButtonActive a] else cl0)"
  define b where "b = Elem ''div'' cl1 ''inherit'' None (Some t) [Text ''A'']"
  have step: "settingsButtons B a h (t # ts) (Elem tag cl ce ph li cs)
      = settingsButtons B a h ts (Elem tag cl ce ph li (cs @ [b]))"
    by (simp add: m obind_def classList_add_one [OF act] cl1_def b_def
        del: classList_add.simps)
  have Pb: "?P b t"
    by (auto simp: b_def cl1_def cl0)
  from Cons.prems have "\<forall>t\<in>set ts. \<not> list_ex ascii_whitespace t"
    by simp
  from Cons.IH [OF this, of "cs @ [b]"] obtain bs where
    r: "settingsButtons B a h ts (Elem tag cl ce ph li (cs @ [b]))
          = Inr (Elem tag cl ce ph li ((cs @ [b]) @ bs))"
    and all: "list_all2 ?P bs ts"
    by blast
  show ?case
    by (rule exI [of _ "b # bs"]) (use step r all Pb in simp)
qed

lemma ident_char_no_whitespace: "ident_char c \<Longrightarrow> \<not> ascii_whitespace c"
  by (auto simp: ident_char_def ident_start_def ascii_whitespace_def)

lemma css_identifier_chars: "css_identifier c \<Longrightarrow> c \<noteq> [] \<and> list_all ident_char c"
  by (induction c rule: css_identifier.induct) (auto simp: ident_char_def)

text \<open>A CSS identifier is a valid class token.\<close>

lemma css_identifier_valid: "css_identifier c \<Longrightarrow> validate_tokens [c] = None"
  using css_identifier_chars [of c]
  by (auto simp: list_all_iff list_ex_iff ident_char_no_whitespace)

lemma remove_from_matching_elem:
  "\<not> is_Text n \<Longrightarrow>
   \<not> is_Text (remove_from_matching c act n)
   \<and> clickListener (remove_from_matching c act n) = clickListener n"
  by (cases n) simp_all

lemma drop_class_elem:
  "\<not> is_Text n \<Longrightarrow> \<not> is_Text (drop_class c n) \<and> clickListener (drop_class c n) = clickListener n"
  by (cases n) simp_all

lemma unhighlight_returns:
  assumes "css_identifier c" and "validate_tokens [act] = None"
  shows "\<exists>cs'. unhighlight B c act (Elem tag cl ce ph li cs) = Inr (Elem tag cl ce ph li cs')
           \<and> length cs' = length cs
           \<and> (\<forall>i<length cs. \<not> is_Text (cs ! i) \<longrightarrow>
                 \<not> is_Text (cs' ! i) \<and> clickListener (cs' ! i) = clickListener (cs ! i))"
proof (cases "list_ex (has_class c) (descendants (Elem tag cl ce ph li cs))")
  case True
  with assms show ?thesis
    by (simp add: remove_from_matching_elem drop_class_elem
        del: validate_tokens.simps descendants.simps)
next
  case False
  with assms(1) show ?thesis
    by (simp del: descendants.simps)
qed

lemma highlight_returns:
  assumes "validate_tokens [act] = None" and "i < length cs" and "\<not> is_Text (cs ! i)"
  shows "\<exists>b. highlight i act (Elem tag cl ce ph li cs) = Inr (Elem tag cl ce ph li (cs[i := b]))
           \<and> \<not> is_Text b \<and> clickListener b = clickListener (cs ! i)"
  using assms
  by (cases "cs ! i")
     (fastforce simp: classList_add_one obind_def
        simp del: classList_add.simps validate_tokens.simps)+

lemma CSS_settings_container [simp]:
  "CSS_settingsButton (a\<lparr>container := c\<rparr>) = CSS_settingsButton a"
  "CSS_settingsButtonActive (a\<lparr>container := c\<rparr>) = CSS_settingsButtonActive a"
  by (simp_all add: CSS_settingsButton_def CSS_settingsButtonActive_def)

text \<open>
  The listener of a button returns when the block was rendered and the host's style names
  are a CSS identifier and a valid class token: the type of the data object is the type
  of the button, the container has the type class of that type and of no other supported
  type, and the settings container keeps its buttons and their listeners.
\<close>

lemma settingsButton_onclick_returns:
  assumes cont: "container a = Some (Elem tag cl ce ph li cs)"
    and sb: "css_identifier (CSS_settingsButton a)"
    and act: "validate_tokens [CSS_settingsButtonActive a] = None"
    and i: "i < length bs" "\<not> is_Text (bs ! i)"
  shows "\<exists>bs' cl'. settingsButton_onclick B t i (Elem tag' k ce' ph' li' bs) a h =
             (Inr (), Elem tag' k ce' ph' li' bs',
              a\<lparr>container := Some (Elem tag cl' ce ph li cs)\<rparr>,
              h[data a := (h ! data a)\<lparr>type := JStr t\<rparr>])
          \<and> set cl' = (set cl - (\<lambda>u. CSS_wrapperForType (JStr u)) ` set ALERT_TYPES)
                        \<union> (if t \<in> set ALERT_TYPES then {CSS_wrapperForType (JStr t)} else {})
          \<and> length bs' = length bs
          \<and> (\<forall>j<length bs. \<not> is_Text (bs ! j) \<longrightarrow>
                \<not> is_Text (bs' ! j) \<and> clickListener (bs' ! j) = clickListener (bs ! j))"
proof -
  from changeAlertType_returns [OF cont, of t h] obtain cl' where
    c: "changeAlertType t a h =
             (Inr (), a\<lparr>container := Some (Elem tag cl' ce ph li cs)\<rparr>,
              h[data a := (h ! data a)\<lparr>type := JStr t\<rparr>])"
    and s: "set cl' = (set cl - (\<lambda>u. CSS_wrapperForType (JStr u)) ` set ALERT_TYPES)
                        \<union> (if t \<in> set ALERT_TYPES then {CSS_wrapperForType (JStr t)} else {})"
    by blast
  from unhighlight_returns [OF sb act, of B tag' k ce' ph' li' bs] obtain bs1 where
    u: "unhighlight B (CSS_settingsButton a) (CSS_settingsButtonActive a)
          (Elem tag' k ce' ph' li' bs) = Inr (Elem tag' k ce' ph' li' bs1)"
    and l: "length bs1 = length bs"
    and e: "\<forall>j<length bs. \<not> is_Text (bs ! j) \<longrightarrow>
              \<not> is_Text (bs1 ! j) \<and> clickListener (bs1 ! j) = clickListener (bs ! j)"
    by blast
  from i l e have i1: "i < length bs1" "\<not> is_Text (bs1 ! i)" by auto
  from highlight_returns [OF act i1, of tag' k ce' ph' li'] obtain b where
    hl: "highlight i (CSS_settingsButtonActive a) (Elem tag' k ce' ph' li' bs1)
           = Inr (Elem tag' k ce' ph' li' (bs1[i := b]))"
    and b: "\<not> is_Text b" "clickListener b = clickListener (bs1 ! i)"
    by blast
  have keep: "\<forall>j<length bs. \<not> is_Text (bs ! j) \<longrightarrow>
                \<not> is_Text (bs1[i := b] ! j) \<and> clickListener (bs1[i := b] ! j) = clickListener (bs ! j)"
    using e l b i by (auto simp: nth_list_update)
  show ?thesis
    by (intro exI [of _ "bs1[i := b]"] exI [of _ cl'])
       (simp add: settingsButton_onclick_def c u hl s l keep
          del: unhighlight.simps highlight.simps)
qed

text \<open>Text of printable ASCII without \<open><\<close>, \<open>&\<close> and \<open>>\<close> is serialised as it is.\<close>

lemma escape_char_plain:
  "32 \<le> (of_char c :: nat) \<Longrightarrow> (of_char c :: nat) \<le> 126 \<Longrightarrow> c \<noteq> CHR ''<'' \<Longrightarrow> c \<noteq> CHR ''&''
   \<Longrightarrow> c \<noteq> CHR ''>'' \<Longrightarrow> escape_char c = [c]"
  by (auto simp: escape_char_def)

lemma escapeText_plain:
  "markup_free s \<Longrightarrow> CHR ''>'' \<notin> set s \<Longrightarrow> escapeText s = s"
  by (induction s) (auto simp: markup_free_def escapeText_def escape_char_plain)

lemma render_save_eq:
  "\<not> list_ex ascii_whitespace (ToString (type (h ! data a))) \<Longrightarrow>
   render_save B a h =
     Inr ((h ! data a)\<lparr>message :=
            JStr (concat (map (serializeNode B ''div'')
                    (parse_html B ''div'' (LegacyNullToEmptyString (message (h ! data a))))))\<rparr>)"
  by (simp add: render_save_def render_returns save_def innerHTML_def)

lemma render_then_save:
  assumes "\<not> list_ex ascii_whitespace (ToString (type (h ! data a)))"
  shows "\<exists>el a1 r h2. render B a h = (Inr el, a1) \<and> save B el a1 h = (Inr r, a1, h2)"
  by (simp add: render_returns [OF assms] save_def)

lemma constructor_type_no_whitespace:
  assumes "\<not> list_ex ascii_whitespace (ToString (config_defaultType config))"
    and "constructor d config ap ro h = (a, h1)"
  shows "\<not> list_ex ascii_whitespace (ToString (defaultType a))"
    and "\<not> list_ex ascii_whitespace (ToString (type (h1 ! data a)))"
proof -
  have info: "\<not> list_ex ascii_whitespace ''info''"
    by (simp add: ascii_whitespace_def)
  from assms info show "\<not> list_ex ascii_whitespace (ToString (defaultType a))"
    by (auto simp: constructor_fields split: if_splits)
  from assms info show "\<not> list_ex ascii_whitespace (ToString (type (h1 ! data a)))"
    by (auto simp: constructor_fields ALERT_TYPES_no_whitespace split: if_splits)
qed

lemma example_renderSettings:
  "renderSettings example_browser example_alert example_store = Inr example_settings"
  by code_simp

lemma example_click:
  "click example_browser 1 example_settings example_alert example_store =
     (Inr (),
      Elem ''div'' [] ''inherit'' None None
       [Elem ''div'' [''cdx-settings-button'', ''meldung'', ''meldung_info'']
          ''inherit'' None (Some ''info'') [Text ''A''],
        Elem ''div'' [''cdx-settings-button'', ''meldung'', ''meldung_hinweis'',
                      ''cdx-settings-button--active'']
          ''inherit'' None (Some ''hinweis'') [Text ''A''],
        Elem ''div'' [''cdx-settings-button'', ''meldung'', ''meldung_warnung'']
          ''inherit'' None (Some ''warnung'') [Text ''A'']],
      example_alert\<lparr>container :=
        Some (Elem ''div'' [''meldung'', ''meldung_hinweis''] ''inherit'' None None
               [Elem ''div'' [''cdx-alert__message''] ''true'' (Some ''Type here...'') None
                  [Text ''Hello'']])\<rparr>,
      [\<lparr> type = JStr ''hinweis'', message = JStr ''Hello'' \<rparr>])"
  by code_simp

lemma example_container:
  "container example_alert =
     Some (Elem ''div'' [''meldung'', ''meldung_info''] ''inherit'' None None
             [Elem ''div'' [''cdx-alert__message''] ''true'' (Some ''Type here...'') None
                [Text ''Hello'']])"
  "container example_alert = Some example_element"
  "data example_alert < length example_store"
  by (simp_all add: example_alert_def example_element_def example_store_def)

lemma example_styles:
  "css_identifier (CSS_settingsButton example_alert)"
  "validate_tokens [CSS_settingsButtonActive example_alert] = None"
  "CSS_settingsButtonActive example_alert \<notin>
     set (CSS_settingsButton example_alert # CSS_wrapper
          # map (\<lambda>t. CSS_wrapperForType (JStr t)) ALERT_TYPES)"
  by code_simp+

section \<open>What the operations keep\<close>

text \<open>
  The data reference of an instance always points into the store, and no operation
  changes the default type or the read-only flag the constructor set.
\<close>

lemma constructor_allocates:
  "constructor d config ap ro h = (a, h') \<Longrightarrow> data a < length h'"
  by (auto simp: constructor_fields)

lemma render_keeps:
  "render B a h = (r, a') \<Longrightarrow>
   data a' = data a \<and> defaultType a' = defaultType a \<and> readOnly a' = readOnly a"
  by (cases "list_ex ascii_whitespace (ToString (type (h ! data a)))")
     (auto simp: render_throws render_returns)

lemma changeAlertType_keeps:
  "changeAlertType t a h = (r, a', h') \<Longrightarrow>
   data a' = data a \<and> length h' = length h \<and> defaultType a' = defaultType a
   \<and> readOnly a' = readOnly a"
  by (auto simp: changeAlertType_def Let_def split: option.splits sum.splits)

lemma onPaste_keeps:
  "onPaste B event a h = (a', h') \<Longrightarrow>
   data a' < length h' \<and> defaultType a' = defaultType a \<and> readOnly a' = readOnly a"
  by (auto simp: onPaste_def)

lemma settingsButton_onclick_keeps:
  "settingsButton_onclick B t i sc a h = (r, sc', a', h') \<Longrightarrow>
   data a' = data a \<and> length h' = length h \<and> defaultType a' = defaultType a
   \<and> readOnly a' = readOnly a"
  by (auto simp: settingsButton_onclick_def split: prod.splits sum.splits
      dest: changeAlertType_keeps)

lemma click_keeps:
  "click B i sc a h = (r, sc', a', h') \<Longrightarrow>
   data a' = data a \<and> length h' = length h \<and> defaultType a' = defaultType a
   \<and> readOnly a' = readOnly a"
  by (cases sc)
     (auto split: if_splits node.splits option.splits dest: settingsButton_onclick_keeps)

text \<open>
  Construction gives an operable state, and every operation that returns keeps the state
  operable.
\<close>

lemma operable_append:
  "operable a h \<Longrightarrow> operable a (h @ [x])"
  by (auto simp: operable_def nth_append)

lemma constructor_operable:
  assumes "\<not> list_ex ascii_whitespace (ToString (config_defaultType config))"
    and "css_identifier (settingsButton (styles ap))"
    and "validate_tokens [settingsButtonActive (styles ap)] = None"
    and "constructor d config ap ro h = (a, h1)"
  shows "operable a h1"
proof -
  from assms(4) have "api a = ap" "container a = None" "data a < length h1"
    by (auto simp: constructor_fields)
  with assms(2,3) constructor_type_no_whitespace [OF assms(1,4)] show ?thesis
    by (simp add: operable_def CSS_settingsButton_def CSS_settingsButtonActive_def
        del: validate_tokens.simps)
qed

lemma render_operable:
  assumes "operable a h"
  shows "\<exists>el a'. render B a h = (Inr el, a') \<and> container a' = Some el \<and> operable a' h
           \<and> (\<exists>r h'. save B el a' h = (Inr r, a', h') \<and> operable a' h')"
proof -
  from assms have ws: "\<not> list_ex ascii_whitespace (ToString (type (h ! data a)))"
    by (simp add: operable_def)
  define el where "el =
    Elem ''div'' [CSS_wrapper, CSS_wrapperForType (type (h ! data a))] ''inherit'' None None
      [Elem ''div'' [CSS_message] (if truthy (readOnly a) then ''false'' else ''true'')
         (Some (ToString (messagePlaceholder a))) None
         (parse_html B ''div'' (LegacyNullToEmptyString (message (h ! data a))))]"
  have r: "render B a h = (Inr el, a\<lparr>container := Some el\<rparr>)"
    by (simp add: render_returns [OF ws] el_def)
  from assms have op: "operable (a\<lparr>container := Some el\<rparr>) h"
    by (simp add: operable_def el_def del: validate_tokens.simps)
  have "find (has_class CSS_message) (descendants el)
      = Some (Elem ''div'' [CSS_message] (if truthy (readOnly a) then ''false'' else ''true'')
         (Some (ToString (messagePlaceholder a))) None
         (parse_html B ''div'' (LegacyNullToEmptyString (message (h ! data a)))))"
    by (simp add: el_def)
  from save_found [OF this, of B "a\<lparr>container := Some el\<rparr>" h] op r show ?thesis
    by (auto intro: operable_append)
qed

lemma save_operable:
  assumes "operable a h" and "list_ex (has_class CSS_message) (descendants el)"
  shows "\<exists>r h'. save B el a h = (Inr r, a, h') \<and> operable a h'"
proof -
  from assms(2) obtain m where "find (has_class CSS_message) (descendants el) = Some m"
    by (cases "find (has_class CSS_message) (descendants el)")
       (auto simp: find_None_iff list_ex_iff)
  from save_found [OF this, of B a h] assms(1) show ?thesis
    by (auto intro: operable_append)
qed

lemma renderSettings_operable:
  assumes "operable a h"
  shows "\<exists>sc. renderSettings B a h = Inr sc \<and> settings_container sc"
proof -
  from assms have sb: "css_identifier (CSS_settingsButton a)"
    and act: "validate_tokens [CSS_settingsButtonActive a] = None"
    by (simp_all add: operable_def del: validate_tokens.simps)
  have ws: "\<forall>t\<in>set ALERT_TYPES. \<not> list_ex ascii_whitespace t"
    by (simp add: ALERT_TYPES_no_whitespace)
  from settingsButtons_returns [OF css_identifier_valid [OF sb] act ws,
      of B h "''div''" "[]" "''inherit''" None None "[]"]
  obtain bs where
    r: "settingsButtons B a h ALERT_TYPES (Elem ''div'' [] ''inherit'' None None [])
          = Inr (Elem ''div'' [] ''inherit'' None None bs)"
    and all0: "list_all2 (\<lambda>b t. \<not> is_Text b
                        \<and> has_class (CSS_settingsButton a) b
                        \<and> has_class (CSS_wrapperForType (JStr t)) b
                        \<and> clickListener b = Some t
                        \<and> (has_class (CSS_settingsButtonActive a) b \<longleftrightarrow>
                             type (h ! data a) = JStr t
                             \<or> CSS_settingsButtonActive a
                                 \<in> {CSS_settingsButton a, CSS_wrapper, CSS_wrapperForType (JStr t)}))
               bs ALERT_TYPES"
    by auto
  from all0 have all: "list_all2 (\<lambda>b t. \<not> is_Text b \<and> clickListener b = Some t) bs ALERT_TYPES"
    by (rule list_all2_mono) simp
  have "renderSettings B a h = Inr (Elem ''div'' [] ''inherit'' None None bs)"
    by (simp add: renderSettings_def make_def createElement_def obind_def r)
  with all show ?thesis
    by (simp add: settings_container_def)
qed

lemma click_operable:
  assumes op: "operable a h" and sc: "settings_container sc"
    and i: "i < length ALERT_TYPES" and rendered: "container a \<noteq> None"
  shows "\<exists>sc' a' h'. click B i sc a h = (Inr (), sc', a', h')
           \<and> settings_container sc' \<and> operable a' h' \<and> container a' \<noteq> None"
proof -
  from sc obtain tg k e p l bs where sc_eq: "sc = Elem tg k e p l bs"
    and all: "list_all2 (\<lambda>b t. \<not> is_Text b \<and> clickListener b = Some t) bs ALERT_TYPES"
    by (cases sc) (auto simp: settings_container_def)
  from all have len: "length bs = length ALERT_TYPES"
    by (rule list_all2_lengthD)
  let ?t = "ALERT_TYPES ! i"
  from i have Pi: "\<not> is_Text (bs ! i) \<and> clickListener (bs ! i) = Some ?t"
    by (rule list_all2_nthD2 [OF all])
  then obtain tg' k' e' p' ch where b: "bs ! i = Elem tg' k' e' p' (Some ?t) ch"
    by (cases "bs ! i") auto
  from i len have ib: "i < length bs" by simp
  from Pi have nt: "\<not> is_Text (bs ! i)" by simp
  from op rendered obtain tag cl ce ph li cs where cont: "container a = Some (Elem tag cl ce ph li cs)"
    by (cases "container a"; cases "the (container a)") (auto simp: operable_def)
  from op have sb: "css_identifier (CSS_settingsButton a)"
    and act: "validate_tokens [CSS_settingsButtonActive a] = None"
    by (simp_all add: operable_def del: validate_tokens.simps)
  from settingsButton_onclick_returns [OF cont sb act ib nt, of B ?t tg k e p l h]
  obtain bs' cl' where
    oc: "settingsButton_onclick B ?t i (Elem tg k e p l bs) a h =
           (Inr (), Elem tg k e p l bs',
            a\<lparr>container := Some (Elem tag cl' ce ph li cs)\<rparr>,
            h[data a := (h ! data a)\<lparr>type := JStr ?t\<rparr>])"
    and l': "length bs' = length bs"
    and keep: "\<forall>j<length bs. \<not> is_Text (bs ! j) \<longrightarrow>
                 \<not> is_Text (bs' ! j) \<and> clickListener (bs' ! j) = clickListener (bs ! j)"
    by blast
  have cl: "click B i sc a h =
           (Inr (), Elem tg k e p l bs',
            a\<lparr>container := Some (Elem tag cl' ce ph li cs)\<rparr>,
            h[data a := (h ! data a)\<lparr>type := JStr ?t\<rparr>])"
    using ib b oc by (simp add: sc_eq)
  have sc': "settings_container (Elem tg k e p l bs')"
    unfolding settings_container_def node.case
  proof (rule list_all2_all_nthI)
    show "length bs' = length ALERT_TYPES" using l' len by simp
  next
    fix j assume "j < length bs'"
    with l' have j: "j < length bs" by simp
    from list_all2_nthD [OF all j] keep j
    show "\<not> is_Text (bs' ! j) \<and> clickListener (bs' ! j) = Some (ALERT_TYPES ! j)"
      by simp
  qed
  from i have "\<not> list_ex ascii_whitespace ?t"
    by (simp add: ALERT_TYPES_no_whitespace)
  with op have op': "operable (a\<lparr>container := Some (Elem tag cl' ce ph li cs)\<rparr>)
                       (h[data a := (h ! data a)\<lparr>type := JStr ?t\<rparr>])"
    by (simp add: operable_def del: validate_tokens.simps)
  from cl sc' op' show ?thesis
    by simp
qed

lemma call_onPaste_operable:
  assumes "operable a h"
  shows "\<exists>a' h'. call_onPaste B (PastedNode n) a h = Inr (a', h') \<and> operable a' h'"
    and "\<exists>a' h'. call_onPaste B (PastedString s) a h = Inr (a', h') \<and> operable a' h'"
  using assms
  by (simp_all add: call_onPaste_def onPaste_def operable_def CSS_settingsButton_def
      CSS_settingsButtonActive_def del: validate_tokens.simps)

lemma example_readonly_rendered:
  "render example_browser
       (fst (constructor \<lparr> type = JStr ''info'', message = JStr ''Hello'' \<rparr> empty_config
               example_api (JBool True) []))
       (snd (constructor \<lparr> type = JStr ''info'', message = JStr ''Hello'' \<rparr> empty_config
               example_api (JBool True) []))
   = (Inr example_readonly_element, example_readonly_alert)"
  by code_simp

lemma example_types_no_whitespace:
  "\<not> list_ex ascii_whitespace
       (ToString (type (snd (constructor \<lparr> type = JStr ''info'', message = JStr ''Hello'' \<rparr>
                               empty_config example_api (JBool False) [])
                        ! data (fst (constructor \<lparr> type = JStr ''info'', message = JStr ''Hello'' \<rparr>
                                       empty_config example_api (JBool False) [])))))"
  "\<not> list_ex ascii_whitespace
       (ToString (type (snd (constructor \<lparr> type = JStr ''info'', message = JStr ''Hello'' \<rparr>
                               empty_config example_api (JBool True) [])
                        ! data (fst (constructor \<lparr> type = JStr ''info'', message = JStr ''Hello'' \<rparr>
                                       empty_config example_api (JBool True) [])))))"
  by code_simp+

lemma example_message_elements:
  "childNodes example_element =
       [Elem ''div'' [''cdx-alert__message''] ''true'' (Some ''Type here...'') None
          [Text ''Hello'']]"
  "isContentEditable
       (Elem ''div'' [''cdx-alert__message''] ''true'' (Some ''Type here...'') None
          [Text ''Hello''])"
  "childNodes example_readonly_element =
       [Elem ''div'' [''cdx-alert__message''] ''false'' (Some ''Type here...'') None
          [Text ''Hello'']]"
  "\<not> isContentEditable
       (Elem ''div'' [''cdx-alert__message''] ''false'' (Some ''Type here...'') None
          [Text ''Hello''])"
  by (simp_all add: example_element_def example_readonly_element_def)

lemma example_host:
  "\<not> list_ex ascii_whitespace (ToString (config_defaultType empty_config))"
  "css_identifier (settingsButton (styles example_api))"
  "validate_tokens [settingsButtonActive (styles example_api)] = None"
  by code_simp+

lemma example_constructed:
  "call_constructor (Some \<lparr> type = JStr ''info'', message = JStr ''Hello'' \<rparr>)
       (Some empty_config) example_api (JBool False) []
     = Inr (example_alert\<lparr>container := None\<rparr>, example_store)"
  by code_simp

lemma example_operable:
  "operable (example_alert\<lparr>container := None\<rparr>) example_store"
  "operable example_alert example_store"
  "settings_container example_settings"
  by code_simp+

lemma example_render:
  "render example_browser (example_alert\<lparr>container := None\<rparr>) example_store
     = (Inr example_element, example_alert)"
  by code_simp

lemma example_pasted:
  "call_onPaste example_browser
       (PastedNode (Elem ''p'' [] ''inherit'' None None [Text ''a < b'']))
       example_alert example_store
     = Inr (example_alert\<lparr>data := 1\<rparr>,
            [\<lparr> type = JStr ''info'', message = JStr ''Hello'' \<rparr>,
             \<lparr> type = JStr ''info'', message = JStr ''a &lt; b'' \<rparr>])"
  "call_onPaste example_browser (PastedString ''a < b'') example_alert example_store
     = Inr (example_alert\<lparr>data := 1\<rparr>,
            [\<lparr> type = JStr ''info'', message = JStr ''Hello'' \<rparr>,
             \<lparr> type = JStr ''info'', message = JStr [] \<rparr>])"
  by code_simp+

section \<open>Construction\<close>

text \<open>
  C1, as the specification states it: for every input record and every configuration the
  type after construction is a member of \<open>ALERT_TYPES\<close>, also when \<open>config.defaultType\<close> is
  supplied and \<open>data.type\<close> is not in the list. The constructor checks \<open>data.type\<close> against
  the list and falls back to \<open>config.defaultType\<close> unchecked: with the configuration
  \<open>{defaultType: 'danger'}\<close> and the record \<open>{}\<close> the type is \<open>'danger'\<close>.
\<close>

theorem constructor_type_counterexample:
  "constructor \<lparr> type = JUndefined, message = JUndefined \<rparr>
       \<lparr> config_defaultType = JStr ''danger'', config_messagePlaceholder = JUndefined \<rparr>
       example_api (JBool False) []
     = (\<lparr> api = example_api, defaultType = JStr ''danger'',
          messagePlaceholder = JStr ''Type here...'', data = 0, container = None,
          readOnly = JBool False \<rparr>,
        [\<lparr> type = JStr ''danger'', message = JStr [] \<rparr>])
   \<and> JStr ''danger'' \<notin> JStr ` set ALERT_TYPES"
  by (simp add: constructor_fields ALERT_TYPES_def)

text \<open>
  C1, amended: for every input record and every configuration whose \<open>defaultType\<close> is absent
  (falsy) or itself a member of \<open>ALERT_TYPES\<close>, the type after construction is a member of
  \<open>ALERT_TYPES\<close>.
\<close>

theorem constructor_type_supported:
  assumes "truthy (config_defaultType config) \<longrightarrow> config_defaultType config \<in> JStr ` set ALERT_TYPES"
    and "constructor d config ap ro h = (a, h')"
  shows "type (h' ! data a) \<in> JStr ` set ALERT_TYPES"
proof -
  have info: "JStr ''info'' \<in> JStr ` set ALERT_TYPES"
    by (simp add: ALERT_TYPES_def)
  from assms(2) have "type (h' ! data a) =
      (if type d \<in> JStr ` set ALERT_TYPES then type d
       else if truthy (config_defaultType config) then config_defaultType config
       else JStr ''info'')"
    by (auto simp: constructor_fields)
  with assms(1) info show ?thesis
    by (simp split: if_splits)
qed

theorem constructor_type_supported_witness:
  "config_defaultType \<lparr> config_defaultType = JStr ''warnung'', config_messagePlaceholder = JUndefined \<rparr>
     \<in> JStr ` set ALERT_TYPES
   \<and> constructor \<lparr> type = JStr ''danger'', message = JUndefined \<rparr>
       \<lparr> config_defaultType = JStr ''warnung'', config_messagePlaceholder = JUndefined \<rparr>
       example_api (JBool False) []
     = (\<lparr> api = example_api, defaultType = JStr ''warnung'',
          messagePlaceholder = JStr ''Type here...'', data = 0, container = None,
          readOnly = JBool False \<rparr>,
        [\<lparr> type = JStr ''warnung'', message = JStr [] \<rparr>])
   \<and> type ([\<lparr> type = JStr ''warnung'', message = JStr [] \<rparr>] ! 0) \<in> JStr ` set ALERT_TYPES"
  using constructor_type_supported
    [of "\<lparr> config_defaultType = JStr ''warnung'', config_messagePlaceholder = JUndefined \<rparr>"
        "\<lparr> type = JStr ''danger'', message = JUndefined \<rparr>" example_api "JBool False" "[]"
        "\<lparr> api = example_api, defaultType = JStr ''warnung'',
           messagePlaceholder = JStr ''Type here...'', data = 0, container = None,
           readOnly = JBool False \<rparr>"
        "[\<lparr> type = JStr ''warnung'', message = JStr [] \<rparr>]"]
  by (simp add: constructor_fields ALERT_TYPES_def)

text \<open>
  C3: at construction, when \<open>data.type\<close> is missing or not a member of \<open>ALERT_TYPES\<close>, the
  type is \<open>config.defaultType\<close> when one is given and \<open>'info'\<close> otherwise; when
  \<open>data.message\<close> is missing, the message is the empty string. A default type is given
  when \<open>config.defaultType\<close> is truthy, as \<open>||\<close> reads it: \<open>undefined\<close>, \<open>null\<close>, \<open>false\<close>
  and the empty string give \<open>'info'\<close>.
\<close>

theorem constructor_defaults:
  assumes "constructor d config ap ro h = (a, h')"
  shows "(type d \<notin> JStr ` set ALERT_TYPES \<longrightarrow>
            type (h' ! data a) =
              (if truthy (config_defaultType config) then config_defaultType config
               else JStr ''info''))
         \<and> (message d = JUndefined \<longrightarrow> message (h' ! data a) = JStr [])"
  using assms by (auto simp: constructor_fields)

theorem constructor_defaults_witness:
  "type \<lparr> type = JStr ''danger'', message = JUndefined \<rparr> \<notin> JStr ` set ALERT_TYPES
   \<and> message \<lparr> type = JStr ''danger'', message = JUndefined \<rparr> = JUndefined
   \<and> constructor \<lparr> type = JStr ''danger'', message = JUndefined \<rparr> empty_config
       example_api (JBool False) []
     = (\<lparr> api = example_api, defaultType = JStr ''info'',
          messagePlaceholder = JStr ''Type here...'', data = 0, container = None,
          readOnly = JBool False \<rparr>,
        [\<lparr> type = JStr ''info'', message = JStr [] \<rparr>])
   \<and> type ([\<lparr> type = JStr ''info'', message = JStr [] \<rparr>] ! 0) = JStr ''info''
   \<and> message ([\<lparr> type = JStr ''info'', message = JStr [] \<rparr>] ! 0) = JStr []"
  using constructor_defaults
    [of "\<lparr> type = JStr ''danger'', message = JUndefined \<rparr>" empty_config example_api
        "JBool False" "[]"
        "\<lparr> api = example_api, defaultType = JStr ''info'',
           messagePlaceholder = JStr ''Type here...'', data = 0, container = None,
           readOnly = JBool False \<rparr>"
        "[\<lparr> type = JStr ''info'', message = JStr [] \<rparr>]"]
  by (simp add: constructor_fields ALERT_TYPES_def empty_config_def)

section \<open>Conversion\<close>

text \<open>
  C8: for every string \<open>s\<close>, \<open>conversionConfig.export(conversionConfig.import(s))\<close> is \<open>s\<close>,
  and the imported record has the static default type \<open>'info'\<close>: \<open>import\<close> is a static
  function of the string alone and sees no instance and no configured default type,
  whereas \<open>onPaste\<close> takes the default type of its instance.
\<close>

theorem conversion_import_export:
  "conversionConfig_export (conversionConfig_import (JStr s)) = JStr s
   \<and> type (conversionConfig_import (JStr s)) = JStr ''info''
   \<and> type (snd (onPaste B event a h) ! data (fst (onPaste B event a h))) = defaultType a"
  by (simp add: conversionConfig_export_def conversionConfig_import_def DEFAULT_TYPE_def
      onPaste_def)

section \<open>save\<close>

text \<open>
  C5: for every instance and every element that has a descendant with the message class
  \<open>cdx-alert__message\<close>, \<open>save(element)\<close> returns a record whose message is the current HTML
  content (\<open>innerHTML\<close>) of that descendant, the first one in tree order, and whose type is
  the current type of the instance.
\<close>

theorem save_returns_record:
  assumes "list_ex (has_class CSS_message) (descendants alertElement)"
  shows "\<exists>messageEl r h'.
           find (has_class CSS_message) (descendants alertElement) = Some messageEl
         \<and> messageEl \<in> set (descendants alertElement)
         \<and> has_class CSS_message messageEl
         \<and> save B alertElement a h = (Inr r, a, h')
         \<and> message (h' ! r) = JStr (innerHTML B messageEl)
         \<and> type (h' ! r) = type (h ! data a)"
proof -
  from assms obtain m where m: "find (has_class CSS_message) (descendants alertElement) = Some m"
    by (cases "find (has_class CSS_message) (descendants alertElement)")
       (auto simp: find_None_iff list_ex_iff)
  then have "m \<in> set (descendants alertElement)" "has_class CSS_message m"
    by (auto simp: find_Some_iff)
  with m show ?thesis
    by (simp add: save_found)
qed

theorem save_returns_record_witness:
  "list_ex (has_class CSS_message) (descendants example_element)
   \<and> save example_browser example_element example_alert example_store
       = (Inr 1, example_alert,
          [\<lparr> type = JStr ''info'', message = JStr ''Hello'' \<rparr>,
           \<lparr> type = JStr ''info'', message = JStr ''Hello'' \<rparr>])"
  using save_returns_record [of example_element example_browser example_alert example_store]
  by (simp add: example_saved) (simp add: example_element_def CSS_message_def)

text \<open>
  C9: \<open>save(element)\<close> does not change the instance. Its fields are what they were, the
  store keeps every object it had, so the data object of the instance has the type and the
  message it had; the record returned is a new object, not the data object of the
  instance. When \<open>save\<close> throws, the store is unchanged.
\<close>

theorem save_frame:
  assumes "save B alertElement a h = (res, a', h')" and "data a < length h"
  shows "a' = a \<and> take (length h) h' = h \<and> h' ! data a = h ! data a
         \<and> (case res of Inl e \<Rightarrow> h' = h
             | Inr r \<Rightarrow> r = length h \<and> length h' = Suc (length h) \<and> r \<noteq> data a)"
proof (cases "find (has_class CSS_message) (descendants alertElement)")
  case None
  with assms show ?thesis by (auto simp: save_not_found)
next
  case (Some m)
  with assms show ?thesis by (auto simp: save_found nth_append)
qed

theorem save_frame_witness:
  "data example_alert < length example_store
   \<and> save example_browser example_element example_alert example_store
       = (Inr 1, example_alert,
          [\<lparr> type = JStr ''info'', message = JStr ''Hello'' \<rparr>,
           \<lparr> type = JStr ''info'', message = JStr ''Hello'' \<rparr>])
   \<and> take (length example_store)
         [\<lparr> type = JStr ''info'', message = JStr ''Hello'' \<rparr>,
          \<lparr> type = JStr ''info'', message = JStr ''Hello'' \<rparr>] = example_store"
  using save_frame [of example_browser example_element example_alert example_store "Inr 1"
      example_alert "[\<lparr> type = JStr ''info'', message = JStr ''Hello'' \<rparr>,
                      \<lparr> type = JStr ''info'', message = JStr ''Hello'' \<rparr>]"]
  by (simp add: example_saved) (simp add: example_alert_def example_store_def)

section \<open>onPaste\<close>

text \<open>
  C6: after \<open>onPaste(event)\<close> the data of the instance is a new record: its type is the
  default type of the instance (\<open>config.defaultType\<close>, or \<open>'info'\<close> when none was
  configured), its message is the HTML content of the pasted element, or the empty string
  when that content is missing or empty. Nothing of the previous record enters the new
  one. The instance \<open>a\<close> is any later state of the instance the constructor made.
\<close>

theorem onPaste_resets:
  assumes "constructor d config ap ro h0 = (a0, h1)"
    and "defaultType a = defaultType a0"
    and "onPaste B event a h = (a', h')"
  shows "type (h' ! data a') =
           (if truthy (config_defaultType config) then config_defaultType config else JStr ''info'')
       \<and> message (h' ! data a') =
           (case detail_data event of
              Elem tag cl ce ph li cs \<Rightarrow> JStr (innerHTML B (detail_data event))
            | Text s \<Rightarrow> JStr [])
       \<and> data a' = length h \<and> take (length h) h' = h"
  using assms
  by (cases event; cases "detail_data event")
     (auto simp: onPaste_def constructor_fields js_or_def)

theorem onPaste_resets_witness:
  "defaultType example_alert =
     defaultType (fst (constructor \<lparr> type = JStr ''warnung'', message = JStr ''Hello'' \<rparr>
                         empty_config example_api (JBool False) []))
   \<and> onPaste example_browser (PasteEvent (Elem ''p'' [] ''inherit'' None None [Text ''a < b'']))
        example_alert [\<lparr> type = JStr ''warnung'', message = JStr ''Hello'' \<rparr>]
       = (example_alert\<lparr>data := 1\<rparr>,
          [\<lparr> type = JStr ''warnung'', message = JStr ''Hello'' \<rparr>,
           \<lparr> type = JStr ''info'', message = JStr ''a &lt; b'' \<rparr>])"
  using onPaste_resets
    [of "\<lparr> type = JStr ''warnung'', message = JStr ''Hello'' \<rparr>" empty_config example_api
        "JBool False" "[]"
        "fst (constructor \<lparr> type = JStr ''warnung'', message = JStr ''Hello'' \<rparr>
                empty_config example_api (JBool False) [])"
        "snd (constructor \<lparr> type = JStr ''warnung'', message = JStr ''Hello'' \<rparr>
                empty_config example_api (JBool False) [])"
        example_alert example_browser
        "PasteEvent (Elem ''p'' [] ''inherit'' None None [Text ''a < b''])"
        "[\<lparr> type = JStr ''warnung'', message = JStr ''Hello'' \<rparr>]"
        "example_alert\<lparr>data := 1\<rparr>"
        "[\<lparr> type = JStr ''warnung'', message = JStr ''Hello'' \<rparr>,
          \<lparr> type = JStr ''info'', message = JStr ''a &lt; b'' \<rparr>]"]
  by (simp add: constructor_fields empty_config_def example_alert_def onPaste_def js_or_def
      innerHTML_def rawTextTags_def escapeText_def escape_char_def)

section \<open>render\<close>

text \<open>
  C10: \<open>render()\<close> makes the message element content-editable exactly when the \<open>readOnly\<close>
  flag passed at construction is false: \<open>render\<close> returns, and the \<open>contentEditable\<close> of
  the message element is \<open>"true"\<close> then, and \<open>"false"\<close> in read-only mode. The instance \<open>a\<close>
  is any later state of the instance the constructor made; the class name of its current
  type holds no whitespace, as that of every supported type.
\<close>

theorem render_contentEditable:
  assumes "constructor d config ap (JBool ro) h0 = (a0, h1)"
    and "readOnly a = readOnly a0"
    and "\<not> list_ex ascii_whitespace (ToString (type (h ! data a)))"
  shows "\<exists>el a' messageEl.
           render B a h = (Inr el, a')
         \<and> childNodes el = [messageEl]
         \<and> querySelector_class CSS_message el = Inr (Some messageEl)
         \<and> contentEditable messageEl = (if ro then ''false'' else ''true'')
         \<and> (isContentEditable messageEl \<longleftrightarrow> \<not> ro)"
proof -
  from assms(1,2) have "readOnly a = JBool ro"
    by (auto simp: constructor_fields)
  then show ?thesis
    by (simp add: render_returns [OF assms(3)])
qed

theorem render_contentEditable_witness:
  "\<not> list_ex ascii_whitespace
       (ToString (type (snd (constructor \<lparr> type = JStr ''info'', message = JStr ''Hello'' \<rparr>
                               empty_config example_api (JBool False) [])
                        ! data (fst (constructor \<lparr> type = JStr ''info'', message = JStr ''Hello'' \<rparr>
                                       empty_config example_api (JBool False) [])))))
   \<and> render example_browser
       (fst (constructor \<lparr> type = JStr ''info'', message = JStr ''Hello'' \<rparr> empty_config
               example_api (JBool False) []))
       (snd (constructor \<lparr> type = JStr ''info'', message = JStr ''Hello'' \<rparr> empty_config
               example_api (JBool False) []))
     = (Inr example_element, example_alert)
   \<and> childNodes example_element =
       [Elem ''div'' [''cdx-alert__message''] ''true'' (Some ''Type here...'') None
          [Text ''Hello'']]
   \<and> isContentEditable
       (Elem ''div'' [''cdx-alert__message''] ''true'' (Some ''Type here...'') None
          [Text ''Hello''])
   \<and> \<not> list_ex ascii_whitespace
       (ToString (type (snd (constructor \<lparr> type = JStr ''info'', message = JStr ''Hello'' \<rparr>
                               empty_config example_api (JBool True) [])
                        ! data (fst (constructor \<lparr> type = JStr ''info'', message = JStr ''Hello'' \<rparr>
                                       empty_config example_api (JBool True) [])))))
   \<and> render example_browser
       (fst (constructor \<lparr> type = JStr ''info'', message = JStr ''Hello'' \<rparr> empty_config
               example_api (JBool True) []))
       (snd (constructor \<lparr> type = JStr ''info'', message = JStr ''Hello'' \<rparr> empty_config
               example_api (JBool True) []))
     = (Inr example_readonly_element, example_readonly_alert)
   \<and> childNodes example_readonly_element =
       [Elem ''div'' [''cdx-alert__message''] ''false'' (Some ''Type here...'') None
          [Text ''Hello'']]
   \<and> \<not> isContentEditable
       (Elem ''div'' [''cdx-alert__message''] ''false'' (Some ''Type here...'') None
          [Text ''Hello''])"
  using render_contentEditable
    [of "\<lparr> type = JStr ''info'', message = JStr ''Hello'' \<rparr>" empty_config example_api
        False "[]"
        "fst (constructor \<lparr> type = JStr ''info'', message = JStr ''Hello'' \<rparr>
                empty_config example_api (JBool False) [])"
        "snd (constructor \<lparr> type = JStr ''info'', message = JStr ''Hello'' \<rparr>
                empty_config example_api (JBool False) [])"
        "fst (constructor \<lparr> type = JStr ''info'', message = JStr ''Hello'' \<rparr>
                empty_config example_api (JBool False) [])"
        "snd (constructor \<lparr> type = JStr ''info'', message = JStr ''Hello'' \<rparr>
                empty_config example_api (JBool False) [])"
        example_browser]
    render_contentEditable
    [of "\<lparr> type = JStr ''info'', message = JStr ''Hello'' \<rparr>" empty_config example_api
        True "[]"
        "fst (constructor \<lparr> type = JStr ''info'', message = JStr ''Hello'' \<rparr>
                empty_config example_api (JBool True) [])"
        "snd (constructor \<lparr> type = JStr ''info'', message = JStr ''Hello'' \<rparr>
                empty_config example_api (JBool True) [])"
        "fst (constructor \<lparr> type = JStr ''info'', message = JStr ''Hello'' \<rparr>
                empty_config example_api (JBool True) [])"
        "snd (constructor \<lparr> type = JStr ''info'', message = JStr ''Hello'' \<rparr>
                empty_config example_api (JBool True) [])"
        example_browser]
  by (simp only: example_rendered example_readonly_rendered example_types_no_whitespace
      example_message_elements simp_thms)

section \<open>render, then save\<close>

text \<open>
  C2, as the specification states it: for every valid record, \<open>render()\<close> and then \<open>save()\<close>
  of the rendered element return a record with the message of the original record.
  \<open>render\<close> assigns the message to \<open>innerHTML\<close>, which parses it, and \<open>save\<close> reads
  \<open>innerHTML\<close>, which serialises the parsed nodes: the valid record
  \<open>{type: 'info', message: 'a>b'}\<close> comes back with the message \<open>'a&gt;b'\<close>.
\<close>

theorem render_save_counterexample:
  "render_save example_browser
     (fst (constructor \<lparr> type = JStr ''info'', message = JStr ''a>b'' \<rparr> empty_config
             example_api (JBool False) []))
     (snd (constructor \<lparr> type = JStr ''info'', message = JStr ''a>b'' \<rparr> empty_config
             example_api (JBool False) []))
     = Inr \<lparr> type = JStr ''info'', message = JStr ''a&gt;b'' \<rparr>
   \<and> JStr ''a&gt;b'' \<noteq> message \<lparr> type = JStr ''info'', message = JStr ''a>b'' \<rparr>"
  by (simp add: constructor_fields empty_config_def render_save_eq ascii_whitespace_def
      parse_html_def markup_free_def rawTextTags_def escapeText_def escape_char_def)

text \<open>
  C2, amended: for every valid record (a supported type, a string message \<open>m\<close>),
  \<open>render()\<close> and then \<open>save()\<close> of the rendered element return a record with the type of
  the original and, as its message, the serialisation of the nodes that \<open>m\<close> parses to
  in a \<open>div\<close>; this is \<open>m\<close> itself when \<open>m\<close> is text of printable ASCII characters
  without \<open><\<close>, \<open>&\<close> and \<open>>\<close>.
\<close>

theorem render_save_message:
  assumes "type d \<in> JStr ` set ALERT_TYPES" and "message d = JStr m"
    and "constructor d config ap ro h = (a, h')"
  shows "\<exists>r. render_save B a h' = Inr r \<and> type r = type d
           \<and> message r = JStr (concat (map (serializeNode B ''div'') (parse_html B ''div'' m)))
           \<and> (markup_free m \<and> CHR ''>'' \<notin> set m \<longrightarrow> message r = JStr m)"
proof -
  from assms(1) obtain t where t: "type d = JStr t" "t \<in> set ALERT_TYPES"
    by auto
  from assms(2,3) t have d: "h' ! data a = \<lparr> type = JStr t, message = JStr m \<rparr>"
    by (auto simp: constructor_fields)
  from t(2) have ws: "\<not> list_ex ascii_whitespace (ToString (type (h' ! data a)))"
    by (simp add: d ALERT_TYPES_no_whitespace)
  have plain: "concat (map (serializeNode B ''div'') (parse_html B ''div'' m)) = m"
    if "markup_free m" "CHR ''>'' \<notin> set m"
    using that by (simp add: parse_html_def rawTextTags_def escapeText_plain)
  show ?thesis
    using plain by (simp add: render_save_eq [OF ws] d t(1))
qed

theorem render_save_message_witness:
  "type \<lparr> type = JStr ''info'', message = JStr ''Hello'' \<rparr> \<in> JStr ` set ALERT_TYPES
   \<and> markup_free ''Hello'' \<and> CHR ''>'' \<notin> set ''Hello''
   \<and> render_save example_browser
       (fst (constructor \<lparr> type = JStr ''info'', message = JStr ''Hello'' \<rparr> empty_config
               example_api (JBool False) []))
       (snd (constructor \<lparr> type = JStr ''info'', message = JStr ''Hello'' \<rparr> empty_config
               example_api (JBool False) []))
     = Inr \<lparr> type = JStr ''info'', message = JStr ''Hello'' \<rparr>"
  using render_save_message
    [of "\<lparr> type = JStr ''info'', message = JStr ''Hello'' \<rparr>" "''Hello''" empty_config
        example_api "JBool False" "[]"
        "fst (constructor \<lparr> type = JStr ''info'', message = JStr ''Hello'' \<rparr>
                empty_config example_api (JBool False) [])"
        "snd (constructor \<lparr> type = JStr ''info'', message = JStr ''Hello'' \<rparr>
                empty_config example_api (JBool False) [])"
        example_browser]
  by (simp add: constructor_fields empty_config_def render_save_eq ascii_whitespace_def
      parse_html_def markup_free_def rawTextTags_def escapeText_def escape_char_def
      ALERT_TYPES_def)

section \<open>Exceptions\<close>

text \<open>
  C4, as the specification states it: for every input, construction and the instance
  operations never raise an exception. Four operations do: \<open>save\<close> of an element without
  a message element reads \<open>innerHTML\<close> of \<open>null\<close>; \<open>render\<close> of an instance whose type is
  the configured default \<open>'my type'\<close> adds a class name with a space; a click on a settings
  button of a block that was not rendered reads \<open>classList\<close> of \<open>undefined\<close>;
  \<open>renderSettings\<close> under a host whose style name for a settings button is
  \<open>'cdx settings'\<close> adds a class name with a space.
\<close>

theorem operations_raise_counterexample:
  "fst (save example_browser (Elem ''div'' [] ''inherit'' None None []) example_alert
          example_store) = Inl TypeError
   \<and> fst (render example_browser
            (fst (constructor \<lparr> type = JUndefined, message = JUndefined \<rparr>
                    \<lparr> config_defaultType = JStr ''my type'',
                      config_messagePlaceholder = JUndefined \<rparr> example_api (JBool False) []))
            (snd (constructor \<lparr> type = JUndefined, message = JUndefined \<rparr>
                    \<lparr> config_defaultType = JStr ''my type'',
                      config_messagePlaceholder = JUndefined \<rparr> example_api (JBool False) [])))
       = Inl InvalidCharacterError
   \<and> fst (click example_browser 0 example_settings (example_alert\<lparr>container := None\<rparr>)
            example_store)
       = Inl TypeError
   \<and> renderSettings example_browser
         (example_alert\<lparr>api :=
            \<lparr> styles = \<lparr> settingsButton = ''cdx settings'',
                         settingsButtonActive = ''cdx-settings-button--active'' \<rparr> \<rparr>\<rparr>)
         example_store
       = Inl InvalidCharacterError"
  by code_simp

text \<open>
  C4, amended. Take any data record, also one with a missing or invalid type or message,
  a configuration object whose default type holds no whitespace as a string, and a host
  whose style name for a settings button is a CSS identifier and whose style name for the
  active button is a valid class token. Construction returns an instance: the default
  type is \<open>config.defaultType\<close> when that is truthy and \<open>'info'\<close> otherwise, the type is
  \<open>data.type\<close> when that is supported and the default type otherwise, the message is
  \<open>data.message\<close> when that is truthy and the empty string otherwise. The state is
  operable, and in every operable state: \<open>render\<close> returns an element, and \<open>save\<close> of that
  element returns a record; \<open>save\<close> of any element that has a message element returns a
  record; \<open>renderSettings\<close> returns a settings container; once the block is rendered, a
  click on each button of a settings container returns; \<open>onPaste\<close> of an event with a
  pasted node or string returns. Each of these leaves the state operable, so none of them
  raises at any later time either.
\<close>

theorem operations_return:
  assumes cfg: "\<not> list_ex ascii_whitespace (ToString (config_defaultType config))"
    and sb: "css_identifier (settingsButton (styles ap))"
    and act: "validate_tokens [settingsButtonActive (styles ap)] = None"
  shows "(\<exists>a0 h0. call_constructor (Some d) (Some config) ap ro h = Inr (a0, h0)
            \<and> operable a0 h0
            \<and> defaultType a0 =
                (if truthy (config_defaultType config) then config_defaultType config
                 else JStr ''info'')
            \<and> type (h0 ! data a0) =
                (if type d \<in> JStr ` set ALERT_TYPES then type d else defaultType a0)
            \<and> message (h0 ! data a0) = (if truthy (message d) then message d else JStr []))
       \<and> (\<forall>a s. operable a s \<longrightarrow>
            (\<exists>el a'. render B a s = (Inr el, a') \<and> container a' = Some el \<and> operable a' s
                \<and> (\<exists>r s'. save B el a' s = (Inr r, a', s') \<and> operable a' s'))
          \<and> (\<forall>el. list_ex (has_class CSS_message) (descendants el) \<longrightarrow>
                (\<exists>r s'. save B el a s = (Inr r, a, s') \<and> operable a s'))
          \<and> (\<exists>sc. renderSettings B a s = Inr sc \<and> settings_container sc)
          \<and> (\<forall>sc i. settings_container sc \<and> i < length ALERT_TYPES \<and> container a \<noteq> None \<longrightarrow>
                (\<exists>sc' a' s'. click B i sc a s = (Inr (), sc', a', s')
                    \<and> settings_container sc' \<and> operable a' s' \<and> container a' \<noteq> None))
          \<and> (\<forall>n. \<exists>a' s'. call_onPaste B (PastedNode n) a s = Inr (a', s') \<and> operable a' s')
          \<and> (\<forall>t. \<exists>a' s'. call_onPaste B (PastedString t) a s = Inr (a', s') \<and> operable a' s'))"
proof (intro conjI allI impI)
  define a0 where "a0 = fst (constructor d config ap ro h)"
  define h0 where "h0 = snd (constructor d config ap ro h)"
  have c: "constructor d config ap ro h = (a0, h0)"
    by (simp add: a0_def h0_def)
  have "call_constructor (Some d) (Some config) ap ro h = Inr (a0, h0)"
    by (simp add: call_constructor_def c)
  moreover from c have
    "defaultType a0 =
       (if truthy (config_defaultType config) then config_defaultType config else JStr ''info'')"
    "type (h0 ! data a0) =
       (if type d \<in> JStr ` set ALERT_TYPES then type d else defaultType a0)"
    "message (h0 ! data a0) = (if truthy (message d) then message d else JStr [])"
    by (auto simp: constructor_fields)
  moreover note constructor_operable [OF cfg sb act c]
  ultimately show "\<exists>a0 h0. call_constructor (Some d) (Some config) ap ro h = Inr (a0, h0)
            \<and> operable a0 h0
            \<and> defaultType a0 =
                (if truthy (config_defaultType config) then config_defaultType config
                 else JStr ''info'')
            \<and> type (h0 ! data a0) =
                (if type d \<in> JStr ` set ALERT_TYPES then type d else defaultType a0)
            \<and> message (h0 ! data a0) = (if truthy (message d) then message d else JStr [])"
    by blast
next
  fix a s assume "operable a s"
  then show "\<exists>el a'. render B a s = (Inr el, a') \<and> container a' = Some el \<and> operable a' s
                \<and> (\<exists>r s'. save B el a' s = (Inr r, a', s') \<and> operable a' s')"
    by (rule render_operable)
next
  fix a s el
  assume "operable a s" "list_ex (has_class CSS_message) (descendants el)"
  then show "\<exists>r s'. save B el a s = (Inr r, a, s') \<and> operable a s'"
    by (rule save_operable)
next
  fix a s assume "operable a s"
  then show "\<exists>sc. renderSettings B a s = Inr sc \<and> settings_container sc"
    by (rule renderSettings_operable)
next
  fix a s sc i
  assume op: "operable a s"
    and c: "settings_container sc \<and> i < length ALERT_TYPES \<and> container a \<noteq> None"
  from c have "settings_container sc" "i < length ALERT_TYPES" "container a \<noteq> None"
    by blast+
  with op show "\<exists>sc' a' s'. click B i sc a s = (Inr (), sc', a', s')
                    \<and> settings_container sc' \<and> operable a' s' \<and> container a' \<noteq> None"
    by (rule click_operable)
next
  fix a s n assume "operable a s"
  then show "\<exists>a' s'. call_onPaste B (PastedNode n) a s = Inr (a', s') \<and> operable a' s'"
    by (rule call_onPaste_operable(1))
next
  fix a s t assume "operable a s"
  then show "\<exists>a' s'. call_onPaste B (PastedString t) a s = Inr (a', s') \<and> operable a' s'"
    by (rule call_onPaste_operable(2))
qed

theorem operations_return_witness:
  "\<not> list_ex ascii_whitespace (ToString (config_defaultType empty_config))
   \<and> css_identifier (settingsButton (styles example_api))
   \<and> validate_tokens [settingsButtonActive (styles example_api)] = None
   \<and> call_constructor (Some \<lparr> type = JStr ''info'', message = JStr ''Hello'' \<rparr>)
         (Some empty_config) example_api (JBool False) []
       = Inr (example_alert\<lparr>container := None\<rparr>, example_store)
   \<and> operable (example_alert\<lparr>container := None\<rparr>) example_store
   \<and> render example_browser (example_alert\<lparr>container := None\<rparr>) example_store
       = (Inr example_element, example_alert)
   \<and> operable example_alert example_store
   \<and> save example_browser example_element example_alert example_store
       = (Inr 1, example_alert,
          [\<lparr> type = JStr ''info'', message = JStr ''Hello'' \<rparr>,
           \<lparr> type = JStr ''info'', message = JStr ''Hello'' \<rparr>])
   \<and> renderSettings example_browser example_alert example_store = Inr example_settings
   \<and> settings_container example_settings
   \<and> container example_alert = Some example_element
   \<and> click example_browser 1 example_settings example_alert example_store =
       (Inr (),
        Elem ''div'' [] ''inherit'' None None
         [Elem ''div'' [''cdx-settings-button'', ''meldung'', ''meldung_info'']
            ''inherit'' None (Some ''info'') [Text ''A''],
          Elem ''div'' [''cdx-settings-button'', ''meldung'', ''meldung_hinweis'',
                        ''cdx-settings-button--active'']
            ''inherit'' None (Some ''hinweis'') [Text ''A''],
          Elem ''div'' [''cdx-settings-button'', ''meldung'', ''meldung_warnung'']
            ''inherit'' None (Some ''warnung'') [Text ''A'']],
        example_alert\<lparr>container :=
          Some (Elem ''div'' [''meldung'', ''meldung_hinweis''] ''inherit'' None None
                 [Elem ''div'' [''cdx-alert__message''] ''true'' (Some ''Type here...'') None
                    [Text ''Hello'']])\<rparr>,
        [\<lparr> type = JStr ''hinweis'', message = JStr ''Hello'' \<rparr>])
   \<and> call_onPaste example_browser
         (PastedNode (Elem ''p'' [] ''inherit'' None None [Text ''a < b'']))
         example_alert example_store
       = Inr (example_alert\<lparr>data := 1\<rparr>,
              [\<lparr> type = JStr ''info'', message = JStr ''Hello'' \<rparr>,
               \<lparr> type = JStr ''info'', message = JStr ''a &lt; b'' \<rparr>])
   \<and> call_onPaste example_browser (PastedString ''a < b'') example_alert example_store
       = Inr (example_alert\<lparr>data := 1\<rparr>,
              [\<lparr> type = JStr ''info'', message = JStr ''Hello'' \<rparr>,
               \<lparr> type = JStr ''info'', message = JStr [] \<rparr>])"
  using operations_return
    [OF example_host,
     of "\<lparr> type = JStr ''info'', message = JStr ''Hello'' \<rparr>" "JBool False" "[]"
        example_browser]
  by (simp only: example_host example_constructed example_operable example_render
      example_saved example_renderSettings example_container(2) example_click example_pasted
      simp_thms)

section \<open>renderSettings\<close>

text \<open>
  C7: \<open>renderSettings()\<close> returns a container with one button for each entry of
  \<open>ALERT_TYPES\<close>, in the order of the list: the button for \<open>t\<close> has the class of the
  settings buttons and the type class of \<open>t\<close>, its click listener is the one for \<open>t\<close>, and
  it has the active class exactly when \<open>t\<close> is the current type. A click on the button for
  \<open>t\<close> returns, sets the type of the data object of the instance to \<open>t\<close>, and leaves the
  rendered container with the type class of \<open>t\<close> and of no other supported type. The host's
  style name for a settings button is a CSS identifier, so that the selector the listener
  builds from it selects the buttons; its style name for the active button is a valid
  class token and none of the classes the tool itself gives a button.
\<close>

theorem renderSettings_buttons:
  assumes sb: "css_identifier (CSS_settingsButton a)"
    and act: "validate_tokens [CSS_settingsButtonActive a] = None"
    and fresh: "CSS_settingsButtonActive a \<notin>
                  set (CSS_settingsButton a # CSS_wrapper
                       # map (\<lambda>t. CSS_wrapperForType (JStr t)) ALERT_TYPES)"
    and cont: "container a = Some (Elem tag cl ce ph li cs)"
    and wf: "data a < length h"
  shows "\<exists>buttons.
           renderSettings B a h = Inr (Elem ''div'' [] ''inherit'' None None buttons)
         \<and> list_all2 (\<lambda>b t. has_class (CSS_settingsButton a) b
                        \<and> has_class (CSS_wrapperForType (JStr t)) b
                        \<and> clickListener b = Some t
                        \<and> (has_class (CSS_settingsButtonActive a) b \<longleftrightarrow> type (h ! data a) = JStr t))
               buttons ALERT_TYPES
         \<and> (\<forall>i<length ALERT_TYPES.
               \<exists>sc' a' h' c'.
                 click B i (Elem ''div'' [] ''inherit'' None None buttons) a h = (Inr (), sc', a', h')
               \<and> type (h' ! data a') = JStr (ALERT_TYPES ! i)
               \<and> container a' = Some c'
               \<and> (\<forall>u\<in>set ALERT_TYPES.
                     has_class (CSS_wrapperForType (JStr u)) c' \<longleftrightarrow> u = ALERT_TYPES ! i))"
proof -
  let ?P = "\<lambda>b t. \<not> is_Text b
                        \<and> has_class (CSS_settingsButton a) b
                        \<and> has_class (CSS_wrapperForType (JStr t)) b
                        \<and> clickListener b = Some t
                        \<and> (has_class (CSS_settingsButtonActive a) b \<longleftrightarrow>
                             type (h ! data a) = JStr t
                             \<or> CSS_settingsButtonActive a
                                 \<in> {CSS_settingsButton a, CSS_wrapper, CSS_wrapperForType (JStr t)})"
  have ws: "\<forall>t\<in>set ALERT_TYPES. \<not> list_ex ascii_whitespace t"
    by (simp add: ALERT_TYPES_no_whitespace)
  from settingsButtons_returns [OF css_identifier_valid [OF sb] act ws,
      of B h "''div''" "[]" "''inherit''" None None "[]"]
  obtain bs where
    r: "settingsButtons B a h ALERT_TYPES (Elem ''div'' [] ''inherit'' None None [])
          = Inr (Elem ''div'' [] ''inherit'' None None bs)"
    and all: "list_all2 ?P bs ALERT_TYPES"
    by auto
  have rs: "renderSettings B a h = Inr (Elem ''div'' [] ''inherit'' None None bs)"
    by (simp add: renderSettings_def make_def createElement_def obind_def r)
  from all have len: "length bs = length ALERT_TYPES"
    by (rule list_all2_lengthD)
  have clicks: "\<exists>sc' a' h' c'.
                 click B i (Elem ''div'' [] ''inherit'' None None bs) a h = (Inr (), sc', a', h')
               \<and> type (h' ! data a') = JStr (ALERT_TYPES ! i)
               \<and> container a' = Some c'
               \<and> (\<forall>u\<in>set ALERT_TYPES.
                     has_class (CSS_wrapperForType (JStr u)) c' \<longleftrightarrow> u = ALERT_TYPES ! i)"
    if i: "i < length ALERT_TYPES" for i
  proof -
    let ?t = "ALERT_TYPES ! i"
    from i have Pi: "?P (bs ! i) ?t"
      by (rule list_all2_nthD2 [OF all])
    then obtain tg k e p ch where b: "bs ! i = Elem tg k e p (Some ?t) ch"
      by (cases "bs ! i") auto
    from i len have ib: "i < length bs" by simp
    from Pi have nt: "\<not> is_Text (bs ! i)" by simp
    from settingsButton_onclick_returns [OF cont sb act ib nt,
        of B ?t "''div''" "[]" "''inherit''" None None h]
    obtain bs' cl' where
      oc: "settingsButton_onclick B ?t i (Elem ''div'' [] ''inherit'' None None bs) a h =
             (Inr (), Elem ''div'' [] ''inherit'' None None bs',
              a\<lparr>container := Some (Elem tag cl' ce ph li cs)\<rparr>,
              h[data a := (h ! data a)\<lparr>type := JStr ?t\<rparr>])"
      and s: "set cl' = (set cl - (\<lambda>u. CSS_wrapperForType (JStr u)) ` set ALERT_TYPES)
                        \<union> (if ?t \<in> set ALERT_TYPES then {CSS_wrapperForType (JStr ?t)} else {})"
      by blast
    from i have tin: "?t \<in> set ALERT_TYPES" by simp
    have cl: "click B i (Elem ''div'' [] ''inherit'' None None bs) a h =
             (Inr (), Elem ''div'' [] ''inherit'' None None bs',
              a\<lparr>container := Some (Elem tag cl' ce ph li cs)\<rparr>,
              h[data a := (h ! data a)\<lparr>type := JStr ?t\<rparr>])"
      using ib b oc by simp
    show ?thesis
      by (intro exI [of _ "Elem ''div'' [] ''inherit'' None None bs'"]
            exI [of _ "a\<lparr>container := Some (Elem tag cl' ce ph li cs)\<rparr>"]
            exI [of _ "h[data a := (h ! data a)\<lparr>type := JStr ?t\<rparr>]"]
            exI [of _ "Elem tag cl' ce ph li cs"])
         (use cl wf s tin in auto)
  qed
  from fresh have f:
    "CSS_settingsButtonActive a \<noteq> CSS_settingsButton a"
    "CSS_settingsButtonActive a \<noteq> CSS_wrapper"
    "\<And>t. t \<in> set ALERT_TYPES \<Longrightarrow> CSS_settingsButtonActive a \<noteq> CSS_wrapperForType (JStr t)"
    by auto
  have all': "list_all2 (\<lambda>b t. has_class (CSS_settingsButton a) b
                        \<and> has_class (CSS_wrapperForType (JStr t)) b
                        \<and> clickListener b = Some t
                        \<and> (has_class (CSS_settingsButtonActive a) b \<longleftrightarrow> type (h ! data a) = JStr t))
               bs ALERT_TYPES"
  proof (rule list_all2_all_nthI)
    show "length bs = length ALERT_TYPES" by (rule len)
  next
    fix i assume i: "i < length bs"
    with len have "ALERT_TYPES ! i \<in> set ALERT_TYPES" by simp
    from f(3) [OF this] f(1,2) list_all2_nthD [OF all i]
    show "has_class (CSS_settingsButton a) (bs ! i)
        \<and> has_class (CSS_wrapperForType (JStr (ALERT_TYPES ! i))) (bs ! i)
        \<and> clickListener (bs ! i) = Some (ALERT_TYPES ! i)
        \<and> (has_class (CSS_settingsButtonActive a) (bs ! i) \<longleftrightarrow>
             type (h ! data a) = JStr (ALERT_TYPES ! i))"
      by simp
  qed
  from rs all' clicks show ?thesis
    by blast
qed

theorem renderSettings_buttons_witness:
  "css_identifier (CSS_settingsButton example_alert)
   \<and> validate_tokens [CSS_settingsButtonActive example_alert] = None
   \<and> CSS_settingsButtonActive example_alert \<notin>
       set (CSS_settingsButton example_alert # CSS_wrapper
            # map (\<lambda>t. CSS_wrapperForType (JStr t)) ALERT_TYPES)
   \<and> container example_alert = Some example_element
   \<and> data example_alert < length example_store
   \<and> renderSettings example_browser example_alert example_store = Inr example_settings
   \<and> click example_browser 1 example_settings example_alert example_store =
       (Inr (),
        Elem ''div'' [] ''inherit'' None None
         [Elem ''div'' [''cdx-settings-button'', ''meldung'', ''meldung_info'']
            ''inherit'' None (Some ''info'') [Text ''A''],
          Elem ''div'' [''cdx-settings-button'', ''meldung'', ''meldung_hinweis'',
                        ''cdx-settings-button--active'']
            ''inherit'' None (Some ''hinweis'') [Text ''A''],
          Elem ''div'' [''cdx-settings-button'', ''meldung'', ''meldung_warnung'']
            ''inherit'' None (Some ''warnung'') [Text ''A'']],
        example_alert\<lparr>container :=
          Some (Elem ''div'' [''meldung'', ''meldung_hinweis''] ''inherit'' None None
                 [Elem ''div'' [''cdx-alert__message''] ''true'' (Some ''Type here...'') None
                    [Text ''Hello'']])\<rparr>,
        [\<lparr> type = JStr ''hinweis'', message = JStr ''Hello'' \<rparr>])"
  using renderSettings_buttons
    [OF example_styles example_container(1) example_container(3), of example_browser]
  by (simp only: example_styles example_renderSettings example_click example_container(2,3)
      simp_thms)

end
